theory Spec2Isabelle
  imports Main "HOL-Library.Word"
begin

unbundle bit_operations_syntax

section \<open>Python values shared by the modules\<close>

text \<open>
  What a call can raise. \<open>Exception\<close> stands for every exception class derived from
  Python's \<open>Exception\<close>, which is what the \<open>except Exception\<close> clauses of the
  repository catch; \<open>Non_Exception\<close> stands for the others (\<open>KeyboardInterrupt\<close>,
  \<open>SystemExit\<close>), which those clauses let through.
\<close>

datatype raised = Exception string | Non_Exception string

text \<open>
  The names that come from the operating system (executable names, device names) are
  Python strings of arbitrary characters: a \<open>pystr\<close> is the list of the code points of
  such a string, and \<open>str\<close> gives the code points of a literal of the source. The
  strings that the repository chooses itself (event types, button keys, action and
  profile identifiers) are \<open>string\<close>s.

  \<open>str.lower\<close> is Python's: its table of case mappings is not part of the repository,
  so every function of the model that calls it takes it as the parameter \<open>lower\<close>, and
  the hook carries it in its surroundings.
\<close>

type_synonym pystr = "nat list"

definition str :: "string \<Rightarrow> pystr" where
  "str s = map of_char s"

text \<open>\<open>needle in hay\<close> on strings, and \<open>s.endswith(suf)\<close>.\<close>

fun contains :: "'a list \<Rightarrow> 'a list \<Rightarrow> bool" where
  "contains [] needle = (needle = [])"
| "contains (c # cs) needle = (take (length needle) (c # cs) = needle \<or> contains cs needle)"

definition endswith :: "'a list \<Rightarrow> 'a list \<Rightarrow> bool" where
  "endswith s suf = (drop (length s - length suf) s = suf)"


section \<open>core/mouse\_hook.py\<close>

subsection \<open>Constants\<close>

abbreviation (input) WM_XBUTTONDOWN :: nat where "WM_XBUTTONDOWN \<equiv> 0x020B"
abbreviation (input) WM_XBUTTONUP :: nat where "WM_XBUTTONUP \<equiv> 0x020C"
abbreviation (input) WM_MBUTTONDOWN :: nat where "WM_MBUTTONDOWN \<equiv> 0x0207"
abbreviation (input) WM_MBUTTONUP :: nat where "WM_MBUTTONUP \<equiv> 0x0208"
abbreviation (input) WM_MOUSEHWHEEL :: nat where "WM_MOUSEHWHEEL \<equiv> 0x020E"
abbreviation (input) WM_MOUSEWHEEL :: nat where "WM_MOUSEWHEEL \<equiv> 0x020A"
abbreviation (input) HC_ACTION :: int where "HC_ACTION \<equiv> 0"
abbreviation (input) XBUTTON1 :: int where "XBUTTON1 \<equiv> 0x0001"
abbreviation (input) XBUTTON2 :: int where "XBUTTON2 \<equiv> 0x0002"
abbreviation (input) INJECTED_FLAG :: "32 word" where "INJECTED_FLAG \<equiv> 0x00000001"
abbreviation (input) WM_INPUT :: nat where "WM_INPUT \<equiv> 0x00FF"
abbreviation (input) RIM_TYPEMOUSE :: nat where "RIM_TYPEMOUSE \<equiv> 0"
abbreviation (input) STANDARD_BUTTON_MASK :: "32 word" where "STANDARD_BUTTON_MASK \<equiv> 0x1F"
abbreviation (input) WM_APP :: nat where "WM_APP \<equiv> 0x8000"
abbreviation (input) WM_APP_INJECT_VSCROLL :: nat where "WM_APP_INJECT_VSCROLL \<equiv> WM_APP + 1"
abbreviation (input) WM_APP_INJECT_HSCROLL :: nat where "WM_APP_INJECT_HSCROLL \<equiv> WM_APP + 2"
abbreviation (input) MOUSEEVENTF_WHEEL :: nat where "MOUSEEVENTF_WHEEL \<equiv> 0x0800"
abbreviation (input) MOUSEEVENTF_HWHEEL :: nat where "MOUSEEVENTF_HWHEEL \<equiv> 0x01000"

abbreviation (input) XBUTTON1_DOWN :: string where "XBUTTON1_DOWN \<equiv> ''xbutton1_down''"
abbreviation (input) XBUTTON1_UP :: string where "XBUTTON1_UP \<equiv> ''xbutton1_up''"
abbreviation (input) XBUTTON2_DOWN :: string where "XBUTTON2_DOWN \<equiv> ''xbutton2_down''"
abbreviation (input) XBUTTON2_UP :: string where "XBUTTON2_UP \<equiv> ''xbutton2_up''"
abbreviation (input) MIDDLE_DOWN :: string where "MIDDLE_DOWN \<equiv> ''middle_down''"
abbreviation (input) MIDDLE_UP :: string where "MIDDLE_UP \<equiv> ''middle_up''"
abbreviation (input) GESTURE_DOWN :: string where "GESTURE_DOWN \<equiv> ''gesture_down''"
abbreviation (input) GESTURE_UP :: string where "GESTURE_UP \<equiv> ''gesture_up''"
abbreviation (input) HSCROLL_LEFT :: string where "HSCROLL_LEFT \<equiv> ''hscroll_left''"
abbreviation (input) HSCROLL_RIGHT :: string where "HSCROLL_RIGHT \<equiv> ''hscroll_right''"

subsection \<open>hiword\<close>

text \<open>
  \<open>dword\<close> is the Python integer read from the \<open>DWORD\<close> field; \<open>>>\<close> and \<open>&\<close> are
  Python's operations on unbounded integers.
\<close>

definition hiword :: "int \<Rightarrow> int" where
  "hiword dword =
     (let val = (drop_bit 16 dword) AND 0xFFFF
      in if val \<ge> 0x8000 then val - 0x10000 else val)"

subsection \<open>MouseEvent and the state of a MouseHook\<close>

text \<open>
  A \<open>MouseEvent\<close> without its \<open>timestamp\<close> (the wall clock at construction), which no
  code of the repository reads.
\<close>

record mouse_event =
  event_type :: string
  raw_data :: "int option"

definition MouseEvent :: "string \<Rightarrow> int option \<Rightarrow> mouse_event" where
  "MouseEvent t d = \<lparr>event_type = t, raw_data = d\<rparr>"

text \<open>
  A registered callable: called with the event, it acts on the part \<open>'w\<close> of the program
  that handlers can reach, and either returns (\<open>None\<close>) or raises; the effects it had
  before raising stay.
\<close>

type_synonym 'w callback = "mouse_event \<Rightarrow> 'w \<Rightarrow> raised option \<times> 'w"

text \<open>
  The fields of \<open>MouseHook\<close> that the handlers below read or write, followed by what
  they do to their surroundings: \<open>msg_queue\<close> holds the messages posted to the hidden
  window with \<open>PostMessageW\<close> and not yet delivered (oldest first), \<open>injected\<close> the
  calls of \<open>inject_scroll\<close> (flags, delta), \<open>reported\<close> the exceptions caught and
  printed, \<open>dispatched\<close> the events handed to \<open>_dispatch\<close> (a record kept by the model
  only), \<open>os_device_name\<close> the name \<open>GetRawInputDeviceInfoW\<close> yields for a device handle
  (empty when it yields none or fails), \<open>str_lower\<close> Python's \<open>str.lower\<close>, and \<open>world\<close>
  the state the callbacks act on.
  \<open>ri_hwnd\<close> is \<open>None\<close> or a window handle; Python takes \<open>None\<close> and 0 as false.
\<close>

record 'w mouse_hook =
  callbacks :: "string \<rightharpoonup> 'w callback list"
  blocked_events :: "string set"
  invert_vscroll :: bool
  invert_hscroll :: bool
  pending_vscroll :: int
  pending_hscroll :: int
  vscroll_posted :: bool
  hscroll_posted :: bool
  ri_hwnd :: "nat option"
  device_name_cache :: "nat \<rightharpoonup> pystr"
  gesture_active :: bool
  prev_raw_buttons :: "nat \<rightharpoonup> 32 word"
  msg_queue :: "nat list"
  injected :: "(nat \<times> int) list"
  reported :: "string list"
  dispatched :: "mouse_event list"
  os_device_name :: "nat \<Rightarrow> pystr"
  str_lower :: "pystr \<Rightarrow> pystr"
  world :: 'w

definition hwnd_true :: "nat option \<Rightarrow> bool" where
  "hwnd_true w = (case w of None \<Rightarrow> False | Some n \<Rightarrow> n \<noteq> 0)"

text \<open>
  The hook as \<open>__init__\<close> leaves it, in given surroundings: nothing posted, injected,
  reported or dispatched yet.
\<close>

definition unnamed_devices :: "nat \<Rightarrow> pystr" where
  "unnamed_devices hDevice = []"

definition MouseHook_init ::
  "(nat \<Rightarrow> pystr) \<Rightarrow> (pystr \<Rightarrow> pystr) \<Rightarrow> 'w \<Rightarrow> 'w mouse_hook" where
  "MouseHook_init names lower w =
     \<lparr>callbacks = Map.empty, blocked_events = {},
      invert_vscroll = False, invert_hscroll = False,
      pending_vscroll = 0, pending_hscroll = 0,
      vscroll_posted = False, hscroll_posted = False,
      ri_hwnd = None, device_name_cache = Map.empty,
      gesture_active = False, prev_raw_buttons = Map.empty,
      msg_queue = [], injected = [], reported = [], dispatched = [],
      os_device_name = names, str_lower = lower, world = w\<rparr>"

subsection \<open>register, block, unblock, reset\_bindings\<close>

definition register :: "'w mouse_hook \<Rightarrow> string \<Rightarrow> 'w callback \<Rightarrow> 'w mouse_hook" where
  "register h evt_type callback =
     h\<lparr>callbacks := (callbacks h)(evt_type \<mapsto>
          (case callbacks h evt_type of None \<Rightarrow> [] | Some cbs \<Rightarrow> cbs) @ [callback])\<rparr>"

definition block :: "'w mouse_hook \<Rightarrow> string \<Rightarrow> 'w mouse_hook" where
  "block h evt_type = h\<lparr>blocked_events := insert evt_type (blocked_events h)\<rparr>"

definition unblock :: "'w mouse_hook \<Rightarrow> string \<Rightarrow> 'w mouse_hook" where
  "unblock h evt_type = h\<lparr>blocked_events := blocked_events h - {evt_type}\<rparr>"

definition reset_bindings :: "'w mouse_hook \<Rightarrow> 'w mouse_hook" where
  "reset_bindings h = h\<lparr>callbacks := Map.empty, blocked_events := {}\<rparr>"

subsection \<open>\_dispatch\<close>

text \<open>
  Every routine below that calls callbacks returns what it raised, if anything, beside
  the state it left: an exception that \<open>except Exception\<close> does not catch leaves the
  routine, and later routines see the effects that came before it.

  \<open>run_callbacks\<close> is the loop of \<open>_dispatch\<close> over the callbacks registered for the
  event's type.
\<close>

fun run_callbacks ::
  "'w callback list \<Rightarrow> mouse_event \<Rightarrow> 'w mouse_hook \<Rightarrow> raised option \<times> 'w mouse_hook" where
  "run_callbacks [] event h = (None, h)"
| "run_callbacks (cb # cbs) event h =
     (case cb event (world h) of
        (None, w) \<Rightarrow> run_callbacks cbs event (h\<lparr>world := w\<rparr>)
      | (Some (Exception e), w) \<Rightarrow>
          run_callbacks cbs event (h\<lparr>reported := reported h @ [e], world := w\<rparr>)
      | (Some (Non_Exception e), w) \<Rightarrow> (Some (Non_Exception e), h\<lparr>world := w\<rparr>))"

definition callbacks_get :: "'w mouse_hook \<Rightarrow> string \<Rightarrow> 'w callback list" where
  "callbacks_get h t = (case callbacks h t of None \<Rightarrow> [] | Some cbs \<Rightarrow> cbs)"

definition dispatch :: "'w mouse_hook \<Rightarrow> mouse_event \<Rightarrow> raised option \<times> 'w mouse_hook" where
  "dispatch h event =
     run_callbacks (callbacks_get h (event_type event)) event
       (h\<lparr>dispatched := dispatched h @ [event]\<rparr>)"

subsection \<open>\_low\_level\_handler\<close>

record msllhookstruct =
  mouseData :: "32 word"
  flags :: "32 word"

text \<open>What the hook procedure returns: 1, or the result of \<open>CallNextHookEx\<close>.\<close>

datatype hook_return = Return_1 | CallNextHookEx

text \<open>
  The \<open>if\<close>/\<open>elif\<close> chain on \<open>wParam\<close>: it either returns 1 at once, having updated the
  scroll accumulator (\<open>Blocked_Now\<close>), or leaves \<open>event\<close> and \<open>should_block\<close> for the
  code after the chain (\<open>Classified\<close>).
\<close>

datatype 'w classified = Blocked_Now "'w mouse_hook" | Classified "mouse_event option" bool

definition classify :: "'w mouse_hook \<Rightarrow> nat \<Rightarrow> int \<Rightarrow> 'w classified" where
  "classify h wParam mouse_data =
     (if wParam = WM_XBUTTONDOWN then
        (let xbutton = hiword mouse_data in
         if xbutton = XBUTTON1 then
           Classified (Some (MouseEvent XBUTTON1_DOWN None)) (XBUTTON1_DOWN \<in> blocked_events h)
         else if xbutton = XBUTTON2 then
           Classified (Some (MouseEvent XBUTTON2_DOWN None)) (XBUTTON2_DOWN \<in> blocked_events h)
         else Classified None False)
      else if wParam = WM_XBUTTONUP then
        (let xbutton = hiword mouse_data in
         if xbutton = XBUTTON1 then
           Classified (Some (MouseEvent XBUTTON1_UP None)) (XBUTTON1_UP \<in> blocked_events h)
         else if xbutton = XBUTTON2 then
           Classified (Some (MouseEvent XBUTTON2_UP None)) (XBUTTON2_UP \<in> blocked_events h)
         else Classified None False)
      else if wParam = WM_MBUTTONDOWN then
        Classified (Some (MouseEvent MIDDLE_DOWN None)) (MIDDLE_DOWN \<in> blocked_events h)
      else if wParam = WM_MBUTTONUP then
        Classified (Some (MouseEvent MIDDLE_UP None)) (MIDDLE_UP \<in> blocked_events h)
      else if wParam = WM_MOUSEWHEEL then
        (if invert_vscroll h then
           (let delta = hiword mouse_data in
            if delta \<noteq> 0 then
              (let h1 = h\<lparr>pending_vscroll := pending_vscroll h + (- delta)\<rparr> in
               if \<not> vscroll_posted h1 \<and> hwnd_true (ri_hwnd h1) then
                 Blocked_Now (h1\<lparr>vscroll_posted := True,
                                  msg_queue := msg_queue h1 @ [WM_APP_INJECT_VSCROLL]\<rparr>)
               else Blocked_Now h1)
            else Classified None False)
         else Classified None False)
      else if wParam = WM_MOUSEHWHEEL then
        (let delta = hiword mouse_data in
         if invert_hscroll h \<and> delta \<noteq> 0 then
           (let h1 = h\<lparr>pending_hscroll := pending_hscroll h + (- delta)\<rparr> in
            if \<not> hscroll_posted h1 \<and> hwnd_true (ri_hwnd h1) then
              Blocked_Now (h1\<lparr>hscroll_posted := True,
                               msg_queue := msg_queue h1 @ [WM_APP_INJECT_HSCROLL]\<rparr>)
            else Blocked_Now h1)
         else if delta > 0 then
           Classified (Some (MouseEvent HSCROLL_LEFT (Some \<bar>delta\<bar>)))
             (HSCROLL_LEFT \<in> blocked_events h)
         else if delta < 0 then
           Classified (Some (MouseEvent HSCROLL_RIGHT (Some \<bar>delta\<bar>)))
             (HSCROLL_RIGHT \<in> blocked_events h)
         else Classified None False)
      else Classified None False)"

text \<open>
  The hook procedure. The report to the debug callback (made only in debug mode, its
  exceptions swallowed) changes none of the state below and is left out.
\<close>

definition low_level_handler ::
  "'w mouse_hook \<Rightarrow> int \<Rightarrow> nat \<Rightarrow> msllhookstruct \<Rightarrow> (raised + hook_return) \<times> 'w mouse_hook" where
  "low_level_handler h nCode wParam data =
     (if nCode = HC_ACTION then
        (if flags data AND INJECTED_FLAG \<noteq> 0 then (Inr CallNextHookEx, h)
         else
           (case classify h wParam (uint (mouseData data)) of
              Blocked_Now h' \<Rightarrow> (Inr Return_1, h')
            | Classified None should_block \<Rightarrow> (Inr CallNextHookEx, h)
            | Classified (Some event) should_block \<Rightarrow>
                (case dispatch h event of
                   (Some e, h') \<Rightarrow> (Inl e, h')
                 | (None, h') \<Rightarrow> (Inr (if should_block then Return_1 else CallNextHookEx), h'))))
      else (Inr CallNextHookEx, h))"

text \<open>
  The operating system calling the hook procedure for one mouse message after the other
  (with \<open>nCode = HC_ACTION\<close>), until an exception leaves it; the values returned are
  collected. \<open>wheel_tick delta\<close> is the data of a wheel message that is not injected
  and carries \<open>delta\<close> in the high word of \<open>mouseData\<close>.
\<close>

fun hook_calls ::
  "'w mouse_hook \<Rightarrow> (nat \<times> msllhookstruct) list \<Rightarrow>
   (raised + hook_return list) \<times> 'w mouse_hook" where
  "hook_calls h [] = (Inr [], h)"
| "hook_calls h ((wParam, data) # rest) =
     (case low_level_handler h HC_ACTION wParam data of
        (Inl e, h') \<Rightarrow> (Inl e, h')
      | (Inr r, h') \<Rightarrow>
          (case hook_calls h' rest of
             (Inl e, h'') \<Rightarrow> (Inl e, h'')
           | (Inr rs, h'') \<Rightarrow> (Inr (r # rs), h'')))"

definition wheel_tick :: "int \<Rightarrow> msllhookstruct" where
  "wheel_tick delta = \<lparr>mouseData = push_bit 16 (word_of_int delta), flags = 0\<rparr>"

subsection \<open>Raw Input: the gesture button\<close>

definition get_device_name :: "'w mouse_hook \<Rightarrow> nat \<Rightarrow> pystr \<times> 'w mouse_hook" where
  "get_device_name h hDevice =
     (case device_name_cache h hDevice of
        Some name \<Rightarrow> (name, h)
      | None \<Rightarrow>
          (let name = os_device_name h hDevice
           in (name, h\<lparr>device_name_cache := (device_name_cache h)(hDevice \<mapsto> name)\<rparr>)))"

definition is_logitech :: "'w mouse_hook \<Rightarrow> nat \<Rightarrow> bool \<times> 'w mouse_hook" where
  "is_logitech h hDevice =
     (case get_device_name h hDevice of (name, h') \<Rightarrow>
        (contains (str_lower h' name) (str ''046d''), h'))"

definition check_raw_mouse_gesture ::
  "'w mouse_hook \<Rightarrow> nat \<Rightarrow> 32 word \<Rightarrow> raised option \<times> 'w mouse_hook" where
  "check_raw_mouse_gesture h hDevice raw_btns =
     (let prev_btns = (case prev_raw_buttons h hDevice of None \<Rightarrow> 0 | Some b \<Rightarrow> b);
          h1 = h\<lparr>prev_raw_buttons := (prev_raw_buttons h)(hDevice \<mapsto> raw_btns)\<rparr>;
          extra_now = raw_btns AND NOT STANDARD_BUTTON_MASK;
          extra_prev = prev_btns AND NOT STANDARD_BUTTON_MASK
      in if extra_now = extra_prev then (None, h1)
         else if extra_now \<noteq> 0 \<and> \<not> extra_prev \<noteq> 0 then
           (if \<not> gesture_active h1
            then dispatch (h1\<lparr>gesture_active := True\<rparr>) (MouseEvent GESTURE_DOWN None)
            else (None, h1))
         else if \<not> extra_now \<noteq> 0 \<and> extra_prev \<noteq> 0 then
           (if gesture_active h1
            then dispatch (h1\<lparr>gesture_active := False\<rparr>) (MouseEvent GESTURE_UP None)
            else (None, h1))
         else (None, h1))"

text \<open>
  What the two calls of \<open>GetRawInputData\<close> yield for the \<open>lParam\<close> of a \<open>WM_INPUT\<close>
  message: the size, the return value of the second call, and the fields read from the
  buffer (which is taken to be as large as the structures read from it).
\<close>

record rawinput =
  ri_sz :: nat
  ri_ret :: "32 word"
  ri_hDevice :: nat
  ri_dwType :: nat
  ri_ulRawButtons :: "32 word"

definition process_raw_input ::
  "'w mouse_hook \<Rightarrow> rawinput \<Rightarrow> raised option \<times> 'w mouse_hook" where
  "process_raw_input h lParam =
     (if ri_sz lParam = 0 then (None, h)
      else if ri_ret lParam = 0xFFFFFFFF then (None, h)
      else
        (case is_logitech h (ri_hDevice lParam) of
           (logi, h1) \<Rightarrow>
             if \<not> logi then (None, h1)
             else if ri_dwType lParam = RIM_TYPEMOUSE
               then check_raw_mouse_gesture h1 (ri_hDevice lParam) (ri_ulRawButtons lParam)
               else (None, h1)))"

subsection \<open>\_ri\_wndproc\<close>

text \<open>What the window procedure returns: 0, or the result of \<open>DefWindowProcW\<close>.\<close>

datatype wnd_return = Return_0 | DefWindowProc

definition ri_wndproc ::
  "'w mouse_hook \<Rightarrow> nat \<Rightarrow> rawinput \<Rightarrow> (raised + wnd_return) \<times> 'w mouse_hook" where
  "ri_wndproc h msg lParam =
     (if msg = WM_INPUT then
        (case process_raw_input h lParam of
           (None, h') \<Rightarrow> (Inr Return_0, h')
         | (Some (Exception e), h') \<Rightarrow> (Inr Return_0, h'\<lparr>reported := reported h' @ [e]\<rparr>)
         | (Some (Non_Exception e), h') \<Rightarrow> (Inl (Non_Exception e), h'))
      else if msg = WM_APP_INJECT_VSCROLL then
        (let delta = pending_vscroll h;
             h1 = h\<lparr>pending_vscroll := 0, vscroll_posted := False\<rparr>
         in if delta \<noteq> 0
            then (Inr Return_0, h1\<lparr>injected := injected h1 @ [(MOUSEEVENTF_WHEEL, delta)]\<rparr>)
            else (Inr Return_0, h1))
      else if msg = WM_APP_INJECT_HSCROLL then
        (let delta = pending_hscroll h;
             h1 = h\<lparr>pending_hscroll := 0, hscroll_posted := False\<rparr>
         in if delta \<noteq> 0
            then (Inr Return_0, h1\<lparr>injected := injected h1 @ [(MOUSEEVENTF_HWHEEL, delta)]\<rparr>)
            else (Inr Return_0, h1))
      else (Inr DefWindowProc, h))"

text \<open>
  The message pump of \<open>_run_hook\<close> delivering the messages posted to the hidden window,
  oldest first: each is taken off the queue and given to the window procedure. The
  posted messages carry no raw input (\<open>lParam\<close> is 0).
\<close>

definition no_rawinput :: rawinput where
  "no_rawinput = \<lparr>ri_sz = 0, ri_ret = 0, ri_hDevice = 0, ri_dwType = 0, ri_ulRawButtons = 0\<rparr>"

fun deliver_posted :: "nat \<Rightarrow> 'w mouse_hook \<Rightarrow> raised option \<times> 'w mouse_hook" where
  "deliver_posted 0 h = (None, h)"
| "deliver_posted (Suc n) h =
     (case msg_queue h of
        [] \<Rightarrow> (None, h)
      | msg # rest \<Rightarrow>
          (case ri_wndproc (h\<lparr>msg_queue := rest\<rparr>) msg no_rawinput of
             (Inl e, h') \<Rightarrow> (Some e, h')
           | (Inr r, h') \<Rightarrow> deliver_posted n h'))"

subsection \<open>The callbacks given to the HID++ listener\<close>

definition on_hid_gesture_down :: "'w mouse_hook \<Rightarrow> raised option \<times> 'w mouse_hook" where
  "on_hid_gesture_down h =
     (if \<not> gesture_active h
      then dispatch (h\<lparr>gesture_active := True\<rparr>) (MouseEvent GESTURE_DOWN None)
      else (None, h))"

definition on_hid_gesture_up :: "'w mouse_hook \<Rightarrow> raised option \<times> 'w mouse_hook" where
  "on_hid_gesture_up h =
     (if gesture_active h
      then dispatch (h\<lparr>gesture_active := False\<rparr>) (MouseEvent GESTURE_UP None)
      else (None, h))"


section \<open>hid\_gesture.py\<close>

subsection \<open>Constants and helpers\<close>

type_synonym byte = "8 word"

abbreviation (input) SHORT_ID :: byte where "SHORT_ID \<equiv> 0x10"
abbreviation (input) LONG_ID :: byte where "LONG_ID \<equiv> 0x11"
abbreviation (input) LONG_LEN :: nat where "LONG_LEN \<equiv> 20"
abbreviation (input) BT_DEV_IDX :: byte where "BT_DEV_IDX \<equiv> 0xFF"
abbreviation (input) FEAT_REPROG_V4 :: int where "FEAT_REPROG_V4 \<equiv> 0x1B04"
abbreviation (input) FEAT_ADJ_DPI :: int where "FEAT_ADJ_DPI \<equiv> 0x2201"
abbreviation (input) CID_GESTURE :: int where "CID_GESTURE \<equiv> 0x00C3"
abbreviation (input) MY_SW :: int where "MY_SW \<equiv> 0x0A"

text \<open>
  A report read from the device is a list of bytes; \<open>_parse\<close> yields
  \<open>(dev_idx, feat_idx, func, sw, params)\<close> or \<open>None\<close>.
\<close>

type_synonym hidpp_msg = "byte \<times> byte \<times> byte \<times> byte \<times> byte list"

definition parse :: "byte list \<Rightarrow> hidpp_msg option" where
  "parse raw =
     (if raw = [] \<or> length raw < 4 then None
      else
        (let off = (if raw ! 0 = SHORT_ID \<or> raw ! 0 = LONG_ID then 1 else 0 :: nat) in
         if off + 3 > length raw then None
         else
           (let dev = raw ! off;
                feat = raw ! (off + 1);
                fsw = raw ! (off + 2);
                func = (drop_bit 4 fsw) AND 0x0F;
                sw = fsw AND 0x0F;
                params = drop (off + 3) raw
            in Some (dev, feat, func, sw, params))))"

subsection \<open>The state of a HidGestureListener\<close>

text \<open>\<open>_pending_dpi\<close> is \<open>None\<close>, the sentinel \<open>"read"\<close>, or a DPI value.\<close>

datatype pending = Pending_Read | Pending_Dpi int

text \<open>\<open>_dpi_result\<close> is \<open>None\<close>, a truth value (after a set), or a DPI value (after a read).\<close>

datatype dpi_res = Res_None | Res_Bool bool | Res_Int int

text \<open>
  The fields of the listener, followed by its surroundings: \<open>write_raises\<close> says whether
  \<open>write\<close> on the device raises, \<open>written\<close> holds the buffers written to the device,
  \<open>closed\<close> the handles closed, and \<open>outside\<close> is the state the two callbacks act on
  (the \<open>MouseHook\<close>, as \<open>MouseHook.start\<close> wires them). \<open>_dev\<close> is \<open>None\<close> or an open
  handle. The thread object and the print output are left out.
\<close>

record 's hid_gesture_listener =
  on_down :: "('s \<Rightarrow> raised option \<times> 's) option"
  on_up :: "('s \<Rightarrow> raised option \<times> 's) option"
  dev :: "nat option"
  running :: bool
  feat_idx :: "byte option"
  dpi_idx :: "byte option"
  dev_idx :: byte
  held :: bool
  pending_dpi :: "pending option"
  dpi_result :: dpi_res
  write_raises :: bool
  written :: "byte list list"
  closed :: "nat list"
  outside :: 's

text \<open>
  The listener as \<open>__init__\<close> leaves it, with the two callbacks given, in surroundings
  where nothing is written or closed yet and \<open>write\<close> does not raise.
\<close>

definition HidGestureListener_init ::
  "('s \<Rightarrow> raised option \<times> 's) option \<Rightarrow> ('s \<Rightarrow> raised option \<times> 's) option \<Rightarrow> 's \<Rightarrow>
   's hid_gesture_listener" where
  "HidGestureListener_init down up s =
     \<lparr>on_down = down, on_up = up, dev = None, running = False,
      feat_idx = None, dpi_idx = None, dev_idx = BT_DEV_IDX, held = False,
      pending_dpi = None, dpi_result = Res_None,
      write_raises = False, written = [], closed = [], outside = s\<rparr>"

subsection \<open>Low-level HID++ I/O\<close>

text \<open>
  \<open>_tx\<close>: the 20-byte buffer, then \<open>write\<close>, which raises when there is no device or
  when the device refuses. \<open>func\<close> and \<open>params\<close> are Python integers; the bytes stored
  are their values below 256.
\<close>

fun fill_params :: "byte list \<Rightarrow> nat \<Rightarrow> int list \<Rightarrow> byte list" where
  "fill_params buf i [] = buf"
| "fill_params buf i (b # bs) =
     fill_params (if 4 + i < LONG_LEN then buf[4 + i := word_of_int (b AND 0xFF)] else buf)
       (Suc i) bs"

definition tx_buf :: "byte \<Rightarrow> byte \<Rightarrow> int \<Rightarrow> int list \<Rightarrow> byte list" where
  "tx_buf dev_index feat func params =
     (let buf = replicate LONG_LEN 0;
          buf = buf[0 := LONG_ID];
          buf = buf[1 := dev_index];
          buf = buf[2 := feat];
          buf = buf[3 := word_of_int (push_bit 4 (func AND 0x0F) OR (MY_SW AND 0x0F))]
      in fill_params buf 0 params)"

definition tx ::
  "'s hid_gesture_listener \<Rightarrow> byte \<Rightarrow> byte \<Rightarrow> int \<Rightarrow> int list \<Rightarrow>
   raised option \<times> 's hid_gesture_listener" where
  "tx l report_id feat func params =
     (let buf = tx_buf (dev_idx l) feat func params in
      if dev l = None then (Some (Exception ''AttributeError''), l)
      else if write_raises l then (Some (Exception ''OSError''), l)
      else (None, l\<lparr>written := written l @ [buf]\<rparr>))"

text \<open>
  What one call of \<open>read\<close> on the device yields: the bytes read (none when the timeout
  passes first), or an exception.
\<close>

datatype read_outcome = Data "byte list" | Read_Raises

definition rx :: "'s hid_gesture_listener \<Rightarrow> read_outcome \<Rightarrow> byte list option" where
  "rx l r =
     (if dev l = None then None
      else (case r of Read_Raises \<Rightarrow> None | Data d \<Rightarrow> if d \<noteq> [] then Some d else None))"

text \<open>
  The loop of \<open>_request\<close>. The clock is the list of reads: \<open>reads\<close> holds the outcomes of
  the calls of \<open>read\<close> that return before the deadline, in order, and the deadline has
  passed when none is left. The result comes with the reads not consumed.
\<close>

fun request_loop ::
  "'s hid_gesture_listener \<Rightarrow> byte \<Rightarrow> read_outcome list \<Rightarrow>
   hidpp_msg option \<times> read_outcome list" where
  "request_loop l feat [] = (None, [])"
| "request_loop l feat (r # reads) =
     (case rx l r of
        None \<Rightarrow> request_loop l feat reads
      | Some raw \<Rightarrow>
          (case parse raw of
             None \<Rightarrow> request_loop l feat reads
           | Some (d, r_feat, r_func, r_sw, r_params) \<Rightarrow>
               if r_feat = 0xFF then (None, reads)
               else if r_feat = feat \<and> uint r_sw = MY_SW
                 then (Some (d, r_feat, r_func, r_sw, r_params), reads)
               else request_loop l feat reads))"

definition request ::
  "'s hid_gesture_listener \<Rightarrow> byte \<Rightarrow> int \<Rightarrow> int list \<Rightarrow> read_outcome list \<Rightarrow>
   hidpp_msg option \<times> 's hid_gesture_listener \<times> read_outcome list" where
  "request l feat func params reads =
     (case tx l LONG_ID feat func params of
        (Some e, l') \<Rightarrow> (None, l', reads)
      | (None, l') \<Rightarrow> (case request_loop l' feat reads of (resp, rest) \<Rightarrow> (resp, l', rest)))"

subsection \<open>Feature helpers\<close>

definition find_feature ::
  "'s hid_gesture_listener \<Rightarrow> int \<Rightarrow> read_outcome list \<Rightarrow>
   byte option \<times> 's hid_gesture_listener \<times> read_outcome list" where
  "find_feature l feature_id reads =
     (let hi = (drop_bit 8 feature_id) AND 0xFF;
          lo = feature_id AND 0xFF
      in case request l 0x00 0 [hi, lo, 0x00] reads of
           (Some (_, _, _, _, p), l', rest) \<Rightarrow>
             (if p \<noteq> [] \<and> p ! 0 \<noteq> 0 then (Some (p ! 0), l', rest) else (None, l', rest))
         | (None, l', rest) \<Rightarrow> (None, l', rest))"

definition divert ::
  "'s hid_gesture_listener \<Rightarrow> read_outcome list \<Rightarrow>
   bool \<times> 's hid_gesture_listener \<times> read_outcome list" where
  "divert l reads =
     (case feat_idx l of
        None \<Rightarrow> (False, l, reads)
      | Some fi \<Rightarrow>
          (let hi = (drop_bit 8 CID_GESTURE) AND 0xFF;
               lo = CID_GESTURE AND 0xFF
           in case request l fi 3 [hi, lo, 0x03] reads of
                (resp, l', rest) \<Rightarrow> (resp \<noteq> None, l', rest)))"

definition undivert :: "'s hid_gesture_listener \<Rightarrow> 's hid_gesture_listener" where
  "undivert l =
     (case feat_idx l of
        None \<Rightarrow> l
      | Some fi \<Rightarrow>
          if dev l = None then l
          else
            (let hi = (drop_bit 8 CID_GESTURE) AND 0xFF;
                 lo = CID_GESTURE AND 0xFF
             in snd (tx l LONG_ID fi 3 [hi, lo, 0x02])))"

subsection \<open>DPI control\<close>

text \<open>
  \<open>set_dpi\<close> runs on the caller's thread: it stores the request (\<open>set_dpi_enqueue\<close>)
  and then polls, up to 30 times 0.1 s apart, until the listener thread has cleared
  \<open>_pending_dpi\<close>; \<open>set_dpi_poll\<close> is one poll, \<open>None\<close> when the request is still
  pending. \<open>dpi_value\<close> is an integer, as the callers of the repository pass.
\<close>

definition set_dpi_enqueue :: "'s hid_gesture_listener \<Rightarrow> int \<Rightarrow> 's hid_gesture_listener" where
  "set_dpi_enqueue l dpi_value =
     (let dpi = max 200 (min 8200 dpi_value)
      in l\<lparr>dpi_result := Res_None, pending_dpi := Some (Pending_Dpi dpi)\<rparr>)"

definition set_dpi_poll :: "'s hid_gesture_listener \<Rightarrow> bool option" where
  "set_dpi_poll l =
     (if pending_dpi l = None then Some (dpi_result l = Res_Bool True) else None)"

definition apply_pending_dpi ::
  "'s hid_gesture_listener \<Rightarrow> read_outcome list \<Rightarrow>
   's hid_gesture_listener \<times> read_outcome list" where
  "apply_pending_dpi l reads =
     (case pending_dpi l of
        None \<Rightarrow> (l, reads)
      | Some Pending_Read \<Rightarrow> (l, reads) \<comment> \<open>not reached: \<open>apply_queued\<close> sends the sentinel elsewhere\<close>
      | Some (Pending_Dpi dpi) \<Rightarrow>
          (case dpi_idx l of
             None \<Rightarrow> (l\<lparr>dpi_result := Res_Bool False, pending_dpi := None\<rparr>, reads)
           | Some di \<Rightarrow>
               if dev l = None
               then (l\<lparr>dpi_result := Res_Bool False, pending_dpi := None\<rparr>, reads)
               else
                 (let hi = (drop_bit 8 dpi) AND 0xFF;
                      lo = dpi AND 0xFF
                  in case request l di 3 [0x00, hi, lo] reads of
                       (Some resp, l', rest) \<Rightarrow>
                         (l'\<lparr>dpi_result := Res_Bool True, pending_dpi := None\<rparr>, rest)
                     | (None, l', rest) \<Rightarrow>
                         (l'\<lparr>dpi_result := Res_Bool False, pending_dpi := None\<rparr>, rest))))"

definition read_dpi_enqueue :: "'s hid_gesture_listener \<Rightarrow> 's hid_gesture_listener" where
  "read_dpi_enqueue l = l\<lparr>dpi_result := Res_None, pending_dpi := Some Pending_Read\<rparr>"

definition apply_pending_read_dpi ::
  "'s hid_gesture_listener \<Rightarrow> read_outcome list \<Rightarrow>
   's hid_gesture_listener \<times> read_outcome list" where
  "apply_pending_read_dpi l reads =
     (case dpi_idx l of
        None \<Rightarrow> (l\<lparr>dpi_result := Res_None, pending_dpi := None\<rparr>, reads)
      | Some di \<Rightarrow>
          if dev l = None
          then (l\<lparr>dpi_result := Res_None, pending_dpi := None\<rparr>, reads)
          else
            (case request l di 2 [0x00] reads of
               (Some (_, _, _, _, p), l', rest) \<Rightarrow>
                 (let current =
                        (if length p \<ge> 3
                         then Res_Int (push_bit 8 (uint (p ! 1)) OR uint (p ! 2))
                         else Res_None)
                  in (l'\<lparr>dpi_result := current, pending_dpi := None\<rparr>, rest))
             | (None, l', rest) \<Rightarrow>
                 (l'\<lparr>dpi_result := Res_None, pending_dpi := None\<rparr>, rest)))"

text \<open>The first statement of the listening loop: a queued DPI command is applied.\<close>

definition apply_queued ::
  "'s hid_gesture_listener \<Rightarrow> read_outcome list \<Rightarrow>
   's hid_gesture_listener \<times> read_outcome list" where
  "apply_queued l reads =
     (if pending_dpi l \<noteq> None then
        (if pending_dpi l = Some Pending_Read
         then apply_pending_read_dpi l reads
         else apply_pending_dpi l reads)
      else (l, reads))"

text \<open>
  The DPI value a written buffer carries in a "set sensor DPI" command: bytes 5 and 6,
  high byte first.
\<close>

definition dpi_of_buf :: "byte list \<Rightarrow> int" where
  "dpi_of_buf buf = push_bit 8 (uint (buf ! 5)) OR uint (buf ! 6)"

subsection \<open>Notification handling\<close>

text \<open>
  The loop of \<open>_on_report\<close> that collects the control identifiers, on the parameters
  from index \<open>i\<close> on; the identifiers come in the order in which the loop adds them to
  the set \<open>cids\<close>.
\<close>

fun collect_cids :: "byte list \<Rightarrow> int list" where
  "collect_cids (a # b # rest) =
     (let c = push_bit 8 (uint a) OR uint b
      in if c = 0 then [] else c # collect_cids rest)"
| "collect_cids rest = []"

definition call_back ::
  "('s \<Rightarrow> raised option \<times> 's) option \<Rightarrow> 's hid_gesture_listener \<Rightarrow>
   raised option \<times> 's hid_gesture_listener" where
  "call_back cb l =
     (case cb of
        None \<Rightarrow> (None, l)
      | Some f \<Rightarrow>
          (case f (outside l) of
             (None, s) \<Rightarrow> (None, l\<lparr>outside := s\<rparr>)
           | (Some (Exception e), s) \<Rightarrow> (None, l\<lparr>outside := s\<rparr>)
           | (Some (Non_Exception e), s) \<Rightarrow> (Some (Non_Exception e), l\<lparr>outside := s\<rparr>)))"

definition on_report ::
  "'s hid_gesture_listener \<Rightarrow> byte list \<Rightarrow> raised option \<times> 's hid_gesture_listener" where
  "on_report l raw =
     (case parse raw of
        None \<Rightarrow> (None, l)
      | Some (d, feat, func, sw, params) \<Rightarrow>
          if Some feat \<noteq> feat_idx l \<or> func \<noteq> 0 then (None, l)
          else
            (let cids = set (collect_cids params);
                 gesture_now = (CID_GESTURE \<in> cids)
             in if gesture_now \<and> \<not> held l then call_back (on_down l) (l\<lparr>held := True\<rparr>)
                else if \<not> gesture_now \<and> held l then call_back (on_up l) (l\<lparr>held := False\<rparr>)
                else (None, l)))"

text \<open>
  The listener handling one report after the other, until an exception leaves
  \<open>_on_report\<close>.
\<close>

fun on_reports ::
  "'s hid_gesture_listener \<Rightarrow> byte list list \<Rightarrow> raised option \<times> 's hid_gesture_listener" where
  "on_reports l [] = (None, l)"
| "on_reports l (raw # raws) =
     (case on_report l raw of
        (Some e, l') \<Rightarrow> (Some e, l')
      | (None, l') \<Rightarrow> on_reports l' raws)"

subsection \<open>The main loop\<close>

text \<open>
  One pass of the listening loop after the queued DPI command: the report read, if any,
  goes to \<open>_on_report\<close>.
\<close>

definition listen_read ::
  "'s hid_gesture_listener \<Rightarrow> read_outcome \<Rightarrow> raised option \<times> 's hid_gesture_listener" where
  "listen_read l r = (case rx l r of None \<Rightarrow> (None, l) | Some raw \<Rightarrow> on_report l raw)"

text \<open>
  The clean-up of \<open>_main_loop\<close> that follows the listening loop ("Cleanup before
  potential reconnect"), before the two-second sleep.
\<close>

definition main_loop_cleanup :: "'s hid_gesture_listener \<Rightarrow> 's hid_gesture_listener" where
  "main_loop_cleanup l =
     (let l1 = undivert l;
          l2 = (case dev l1 of None \<Rightarrow> l1 | Some d \<Rightarrow> l1\<lparr>closed := closed l1 @ [d]\<rparr>)
      in l2\<lparr>dev := None, feat_idx := None, held := False\<rparr>)"


section \<open>core/config.py\<close>

text \<open>
  A Python dictionary is an association list in the dictionary's order of iteration,
  its keys distinct; a key that may be absent from a configuration dictionary is an
  optional field. Of a profile and of the settings, the keys read by the code below are
  kept.
\<close>

definition dict_get :: "('k \<times> 'v) list \<Rightarrow> 'k \<Rightarrow> 'v \<Rightarrow> 'v" where
  "dict_get d k dflt = (case map_of d k of None \<Rightarrow> dflt | Some v \<Rightarrow> v)"

record profile =
  apps :: "pystr list option"
  mappings :: "(string \<times> string) list option"

record settings =
  cfg_invert_hscroll :: "bool option"
  cfg_invert_vscroll :: "bool option"

record config =
  active_profile :: "string option"
  profiles :: "(string \<times> profile) list option"
  settings :: "settings option"

definition BUTTON_TO_EVENTS :: "(string \<times> string list) list" where
  "BUTTON_TO_EVENTS =
     [(''middle'', [''middle_down'', ''middle_up'']),
      (''gesture'', [''gesture_down'', ''gesture_up'']),
      (''xbutton1'', [''xbutton1_down'', ''xbutton1_up'']),
      (''xbutton2'', [''xbutton2_down'', ''xbutton2_up'']),
      (''hscroll_left'', [''hscroll_left'']),
      (''hscroll_right'', [''hscroll_right''])]"

definition DEFAULT_MAPPINGS :: "(string \<times> string) list" where
  "DEFAULT_MAPPINGS =
     [(''middle'', ''none''),
      (''gesture'', ''none''),
      (''xbutton1'', ''alt_tab''),
      (''xbutton2'', ''alt_tab''),
      (''hscroll_left'', ''browser_back''),
      (''hscroll_right'', ''browser_forward'')]"

definition empty_profile :: profile where
  "empty_profile = \<lparr>apps = None, mappings = None\<rparr>"

definition get_active_mappings :: "config \<Rightarrow> (string \<times> string) list" where
  "get_active_mappings cfg =
     (let profile_name = (case active_profile cfg of None \<Rightarrow> ''default'' | Some n \<Rightarrow> n);
          profs = (case profiles cfg of None \<Rightarrow> [] | Some ps \<Rightarrow> ps);
          prof = dict_get profs profile_name (dict_get profs ''default'' empty_profile)
      in case mappings prof of None \<Rightarrow> DEFAULT_MAPPINGS | Some m \<Rightarrow> m)"

text \<open>
  The loop of \<open>get_profile_for_app\<close> over the profiles, \<open>lower\<close> being \<open>str.lower\<close>. The
  executable name and the entries of the application lists are Python strings of
  arbitrary characters.
\<close>

fun profile_for_app_loop ::
  "(pystr \<Rightarrow> pystr) \<Rightarrow> (string \<times> profile) list \<Rightarrow> pystr \<Rightarrow> string" where
  "profile_for_app_loop lower [] exe_name = ''default''"
| "profile_for_app_loop lower ((pname, pdata) # rest) exe_name =
     (if exe_name \<noteq> [] \<and>
         lower exe_name \<in> set (map lower (case apps pdata of None \<Rightarrow> [] | Some a \<Rightarrow> a))
      then pname
      else profile_for_app_loop lower rest exe_name)"

definition get_profile_for_app :: "(pystr \<Rightarrow> pystr) \<Rightarrow> config \<Rightarrow> pystr \<Rightarrow> string" where
  "get_profile_for_app lower cfg exe_name =
     profile_for_app_loop lower (case profiles cfg of None \<Rightarrow> [] | Some ps \<Rightarrow> ps) exe_name"


section \<open>engine.py\<close>

text \<open>
  What the handlers made by the engine reach: the engine's \<open>_enabled\<close> flag and the
  Action Injector, of which the calls \<open>execute_action(action_id)\<close> are recorded.
\<close>

record engine_world =
  enabled :: bool
  executed :: "string list"

definition execute_action :: "string \<Rightarrow> engine_world \<Rightarrow> engine_world" where
  "execute_action action_id w = w\<lparr>executed := executed w @ [action_id]\<rparr>"

definition make_handler :: "string \<Rightarrow> engine_world callback" where
  "make_handler action_id =
     (\<lambda>event w. (None, if enabled w then execute_action action_id w else w))"

definition make_hscroll_handler :: "string \<Rightarrow> engine_world callback" where
  "make_hscroll_handler action_id =
     (\<lambda>event w. if \<not> enabled w then (None, w) else (None, execute_action action_id w))"

record engine =
  hook :: "engine_world mouse_hook"
  cfg :: config
  current_profile :: string

text \<open>The inner loop of \<open>_setup_hooks\<close>, over the event types of one button.\<close>

fun bind_events ::
  "engine_world mouse_hook \<Rightarrow> string \<Rightarrow> string list \<Rightarrow> engine_world mouse_hook" where
  "bind_events h action_id [] = h"
| "bind_events h action_id (evt_type # events) =
     (if endswith evt_type ''_up'' then
        bind_events (if action_id \<noteq> ''none'' then block h evt_type else h) action_id events
      else if action_id \<noteq> ''none'' then
        bind_events
          (if contains evt_type ''hscroll''
           then register (block h evt_type) evt_type (make_hscroll_handler action_id)
           else register (block h evt_type) evt_type (make_handler action_id))
          action_id events
      else bind_events h action_id events)"

text \<open>The event types the outer loop computes for one button.\<close>

definition events_for :: "bool \<Rightarrow> string \<Rightarrow> string list" where
  "events_for gesture_uses_middle_fallback btn_key =
     (if btn_key = ''gesture'' then
        dict_get BUTTON_TO_EVENTS ''gesture'' [] @
        (if gesture_uses_middle_fallback then dict_get BUTTON_TO_EVENTS ''middle'' [] else [])
      else dict_get BUTTON_TO_EVENTS btn_key [])"

text \<open>The outer loop of \<open>_setup_hooks\<close>, over the items of the mappings.\<close>

fun bind_buttons ::
  "engine_world mouse_hook \<Rightarrow> bool \<Rightarrow> (string \<times> string) list \<Rightarrow> engine_world mouse_hook" where
  "bind_buttons h fb [] = h"
| "bind_buttons h fb ((btn_key, action_id) # items) =
     bind_buttons (bind_events h action_id (events_for fb btn_key)) fb items"

definition setup_hooks :: "engine \<Rightarrow> engine" where
  "setup_hooks e =
     (let mappings = get_active_mappings (cfg e);
          st = (case settings (cfg e) of
                  None \<Rightarrow> \<lparr>cfg_invert_hscroll = None, cfg_invert_vscroll = None\<rparr>
                | Some s \<Rightarrow> s);
          h = (hook e)\<lparr>invert_vscroll :=
                          (case cfg_invert_vscroll st of None \<Rightarrow> False | Some b \<Rightarrow> b),
                        invert_hscroll :=
                          (case cfg_invert_hscroll st of None \<Rightarrow> False | Some b \<Rightarrow> b)\<rparr>;
          middle_action = dict_get mappings ''middle'' ''none'';
          gesture_action = dict_get mappings ''gesture'' ''none'';
          gesture_uses_middle_fallback =
            (gesture_action \<noteq> ''none'' \<and> middle_action = ''none'')
      in e\<lparr>hook := bind_buttons h gesture_uses_middle_fallback mappings\<rparr>)"

text \<open>
  \<open>_switch_profile\<close> and \<open>reload_mappings\<close>, without the call of the user interface's
  callback; \<open>reload_mappings\<close> takes the configuration that \<open>load_config\<close> returns.
\<close>

definition switch_profile :: "engine \<Rightarrow> string \<Rightarrow> engine" where
  "switch_profile e profile_name =
     (let e1 = e\<lparr>cfg := (cfg e)\<lparr>active_profile := Some profile_name\<rparr>,
                  current_profile := profile_name\<rparr>;
          e2 = e1\<lparr>hook := reset_bindings (hook e1)\<rparr>
      in setup_hooks e2)"

definition on_app_change :: "(pystr \<Rightarrow> pystr) \<Rightarrow> engine \<Rightarrow> pystr \<Rightarrow> engine" where
  "on_app_change lower e exe_name =
     (let target = get_profile_for_app lower (cfg e) exe_name
      in if target = current_profile e then e else switch_profile e target)"

definition reload_mappings :: "engine \<Rightarrow> config \<Rightarrow> engine" where
  "reload_mappings e loaded =
     (let e1 = e\<lparr>cfg := loaded,
                  current_profile :=
                    (case active_profile loaded of None \<Rightarrow> ''default'' | Some n \<Rightarrow> n)\<rparr>;
          e2 = e1\<lparr>hook := reset_bindings (hook e1)\<rparr>
      in setup_hooks e2)"


section \<open>Notions of the specification\<close>

text \<open>The high 16 bits of a 32-bit value, read as a signed 16-bit integer.\<close>

definition signed_high_word :: "32 word \<Rightarrow> int" where
  "signed_high_word d = sint (ucast (drop_bit 16 d) :: 16 word)"

text \<open>
  For the isolation of failing handlers: a callback that raises nothing beyond
  \<open>Exception\<close>; the world after every callback of a list has been called in order,
  each on the world its predecessor left, whatever each one raised; and the messages of
  the exceptions raised on the way.
\<close>

definition raises_only_exceptions :: "'w callback \<Rightarrow> bool" where
  "raises_only_exceptions cb = (\<forall>ev w e. fst (cb ev w) \<noteq> Some (Non_Exception e))"

fun call_all :: "'w callback list \<Rightarrow> mouse_event \<Rightarrow> 'w \<Rightarrow> 'w" where
  "call_all [] ev w = w"
| "call_all (cb # cbs) ev w = call_all cbs ev (snd (cb ev w))"

fun caught_messages :: "'w callback list \<Rightarrow> mouse_event \<Rightarrow> 'w \<Rightarrow> string list" where
  "caught_messages [] ev w = []"
| "caught_messages (cb # cbs) ev w =
     (case fst (cb ev w) of
        Some (Exception e) \<Rightarrow> e # caught_messages cbs ev (snd (cb ev w))
      | _ \<Rightarrow> caught_messages cbs ev (snd (cb ev w)))"

text \<open>
  For the selection of a profile, relative to \<open>str.lower\<close>: two names that it maps to
  the same string; a profile whose application list holds a name, up to that; and the
  profiles of a configuration.
\<close>

definition same_ignoring_case :: "(pystr \<Rightarrow> pystr) \<Rightarrow> pystr \<Rightarrow> pystr \<Rightarrow> bool" where
  "same_ignoring_case lower a b = (lower a = lower b)"

definition lists_app :: "(pystr \<Rightarrow> pystr) \<Rightarrow> profile \<Rightarrow> pystr \<Rightarrow> bool" where
  "lists_app lower pdata exe_name =
     (\<exists>a \<in> set (case apps pdata of None \<Rightarrow> [] | Some as \<Rightarrow> as).
        same_ignoring_case lower a exe_name)"

text \<open>
  Letter case itself, as far as it does not depend on the table of \<open>str.lower\<close>: the
  lower-case partner of an ASCII character (the letters A to Z, 65 to 90, have theirs 32
  above), a name of ASCII characters only, two such names that differ in the case of
  letters only, and what \<open>str.lower\<close> is known to do on ASCII names, which is to replace
  every character by its lower-case partner.
\<close>

definition ascii_lower :: "nat \<Rightarrow> nat" where
  "ascii_lower c = (if 65 \<le> c \<and> c \<le> 90 then c + 32 else c)"

definition is_ascii :: "pystr \<Rightarrow> bool" where
  "is_ascii s = list_all (\<lambda>c. c < 128) s"

definition differ_in_case_only :: "pystr \<Rightarrow> pystr \<Rightarrow> bool" where
  "differ_in_case_only a b =
     (is_ascii a \<and> is_ascii b \<and> map ascii_lower a = map ascii_lower b)"

definition lowers_ascii :: "(pystr \<Rightarrow> pystr) \<Rightarrow> bool" where
  "lowers_ascii lower = (\<forall>s. is_ascii s \<longrightarrow> lower s = map ascii_lower s)"

definition profiles_of :: "config \<Rightarrow> (string \<times> profile) list" where
  "profiles_of c = (case profiles c of None \<Rightarrow> [] | Some ps \<Rightarrow> ps)"

text \<open>
  A list of 16-bit identifiers terminated by a zero sentinel, read from pairs of bytes:
  big-endian (the first byte of a pair is the high-order byte) and little-endian (the
  first byte is the low-order byte).
\<close>

fun decode_be :: "byte list \<Rightarrow> int list" where
  "decode_be (a # b # rest) =
     (if a = 0 \<and> b = 0 then [] else (256 * uint a + uint b) # decode_be rest)"
| "decode_be rest = []"

fun decode_le :: "byte list \<Rightarrow> int list" where
  "decode_le (a # b # rest) =
     (if a = 0 \<and> b = 0 then [] else (uint a + 256 * uint b) # decode_le rest)"
| "decode_le rest = []"

text \<open>
  For the edges of the gesture control: a report that is a notification with function 0
  on the control feature of index \<open>fi\<close> and that holds the gesture identifier
  (\<open>present\<close>) or does not; and a listener that has discovered that feature and is wired
  to a hook as \<open>MouseHook.start\<close> wires it, the callbacks registered for the two gesture
  events raising nothing beyond \<open>Exception\<close>.
\<close>

definition notification :: "byte \<Rightarrow> byte list \<Rightarrow> bool \<Rightarrow> bool" where
  "notification fi raw present =
     (case parse raw of
        None \<Rightarrow> False
      | Some (d, feat, func, sw, params) \<Rightarrow>
          feat = fi \<and> func = 0 \<and> (CID_GESTURE \<in> set (decode_be params)) = present)"

definition wired :: "byte \<Rightarrow> 'w mouse_hook hid_gesture_listener \<Rightarrow> bool" where
  "wired fi l =
     (feat_idx l = Some fi \<and>
      on_down l = Some on_hid_gesture_down \<and>
      on_up l = Some on_hid_gesture_up \<and>
      list_all raises_only_exceptions (callbacks_get (outside l) GESTURE_DOWN) \<and>
      list_all raises_only_exceptions (callbacks_get (outside l) GESTURE_UP))"

text \<open>
  For the matching of responses: the message that a read delivers to the loop of
  \<open>_request\<close> (none when the read times out or fails, or when the report does not
  parse); a message that answers a request on feature index \<open>feat\<close> (same feature
  index, our software tag); an error message (feature index 0xFF); and a read that the
  loop passes over.
\<close>

definition report_of :: "'s hid_gesture_listener \<Rightarrow> read_outcome \<Rightarrow> hidpp_msg option" where
  "report_of l r = (case rx l r of None \<Rightarrow> None | Some raw \<Rightarrow> parse raw)"

definition answers :: "byte \<Rightarrow> hidpp_msg \<Rightarrow> bool" where
  "answers feat m = (case m of (d, r_feat, r_func, r_sw, r_params) \<Rightarrow>
     r_feat = feat \<and> uint r_sw = MY_SW)"

definition is_error :: "hidpp_msg \<Rightarrow> bool" where
  "is_error m = (case m of (d, r_feat, r_func, r_sw, r_params) \<Rightarrow> r_feat = 0xFF)"

definition passed_over :: "'s hid_gesture_listener \<Rightarrow> byte \<Rightarrow> read_outcome \<Rightarrow> bool" where
  "passed_over l feat r =
     (case report_of l r of None \<Rightarrow> True | Some m \<Rightarrow> \<not> is_error m \<and> \<not> answers feat m)"

text \<open>
  For the rewiring: the hook after the bindings have been cleared and set up again from
  the engine's configuration, which is what \<open>_switch_profile\<close> and \<open>reload_mappings\<close>
  do to it; the handler that \<open>_setup_hooks\<close> makes for an event type and an action; and
  whether the middle button stands in for the gesture control under given mappings.
\<close>

definition rewired :: "engine \<Rightarrow> engine_world mouse_hook" where
  "rewired e = hook (setup_hooks (e\<lparr>hook := reset_bindings (hook e)\<rparr>))"

definition handler_for :: "string \<Rightarrow> string \<Rightarrow> engine_world callback" where
  "handler_for evt_type action_id =
     (if contains evt_type ''hscroll''
      then make_hscroll_handler action_id else make_handler action_id)"

definition middle_fallback :: "(string \<times> string) list \<Rightarrow> bool" where
  "middle_fallback m =
     (dict_get m ''gesture'' ''none'' \<noteq> ''none'' \<and> dict_get m ''middle'' ''none'' = ''none'')"



section \<open>Examples\<close>

text \<open>
  \<open>str.lower\<close> for the examples: what Python's does on strings of code points below 256,
  where it replaces each of the letters A to Z (65 to 90) and of the accented capitals
  192 to 214 and 216 to 222 by the character 32 above and leaves every other
  character. The examples use no other code points.
\<close>

definition lower_latin1_cp :: "nat \<Rightarrow> nat" where
  "lower_latin1_cp c =
     (if (65 \<le> c \<and> c \<le> 90) \<or> (192 \<le> c \<and> c \<le> 214) \<or> (216 \<le> c \<and> c \<le> 222)
      then c + 32 else c)"

definition lower_latin1 :: "pystr \<Rightarrow> pystr" where
  "lower_latin1 s = map lower_latin1_cp s"

text \<open>
  A fresh hook with vertical inversion switched on and the hidden window created.
\<close>

definition scrolling_hook :: "unit mouse_hook" where
  "scrolling_hook =
     (MouseHook_init unnamed_devices lower_latin1 ())\<lparr>invert_vscroll := True, ri_hwnd := Some 1\<rparr>"

text \<open>
  The wheel messages of the ticks +3, -5, +1.
\<close>

definition three_wheel_ticks :: "(nat \<times> msllhookstruct) list" where
  "three_wheel_ticks =
     [(WM_MOUSEWHEEL, wheel_tick 3), (WM_MOUSEWHEEL, wheel_tick (- 5)),
      (WM_MOUSEWHEEL, wheel_tick 1)]"

text \<open>
  Two handlers to run the dispatch on, acting on a list of numbers: one appends its
  number and returns, the other appends its number and then raises.
\<close>

definition logging_handler :: "nat \<Rightarrow> nat list callback" where
  "logging_handler k = (\<lambda>event w. (None, w @ [k]))"

definition failing_handler :: "nat \<Rightarrow> string \<Rightarrow> nat list callback" where
  "failing_handler k msg = (\<lambda>event w. (Some (Exception msg), w @ [k]))"

text \<open>
  A fresh hook with three handlers registered for the middle button going down, the
  second of which raises.
\<close>

definition three_handler_hook :: "nat list mouse_hook" where
  "three_handler_hook =
     register
       (register
          (register (MouseHook_init unnamed_devices lower_latin1 []) MIDDLE_DOWN (logging_handler 1))
          MIDDLE_DOWN (failing_handler 2 ''boom''))
       MIDDLE_DOWN (logging_handler 3)"

text \<open>
  A listener without callbacks that has opened a device and discovered the control
  feature at index 5 and the DPI feature at index 7; and a listener that has discovered
  the control feature at index 5 and is wired to a fresh hook with one handler for
  gesture-down.
\<close>

definition connected_listener :: "unit hid_gesture_listener" where
  "connected_listener =
     (HidGestureListener_init None None ())
       \<lparr>dev := Some 1, feat_idx := Some 0x05, dpi_idx := Some 0x07\<rparr>"

definition wired_listener :: "nat list mouse_hook hid_gesture_listener" where
  "wired_listener =
     (HidGestureListener_init (Some on_hid_gesture_down) (Some on_hid_gesture_up)
        (register (MouseHook_init unnamed_devices lower_latin1 []) GESTURE_DOWN (logging_handler 1)))
       \<lparr>feat_idx := Some 0x05\<rparr>"

text \<open>
  Long reports from device index 0xFF. Notifications of function 0 on feature index 5
  with the parameters 00 C3 00 00 (the gesture control held) and 00 00 00 00 (nothing
  held); a response on feature index 5 with function 3 and our tag 0xA; the same with
  tag 1, and on feature index 6; and an error report (feature index 0xFF).
\<close>

definition gesture_report :: "byte list" where
  "gesture_report = [0x11, 0xFF, 0x05, 0x00, 0x00, 0xC3, 0x00, 0x00]"

definition release_report :: "byte list" where
  "release_report = [0x11, 0xFF, 0x05, 0x00, 0x00, 0x00, 0x00, 0x00]"

definition matching_response :: "byte list" where
  "matching_response = [0x11, 0xFF, 0x05, 0x3A, 0x00, 0x1F, 0xA4]"

definition other_tag_report :: "byte list" where
  "other_tag_report = [0x11, 0xFF, 0x05, 0x31, 0x00, 0x1F, 0xA4]"

definition other_feature_report :: "byte list" where
  "other_feature_report = [0x11, 0xFF, 0x06, 0x3A, 0x00, 0x1F, 0xA4]"

definition error_report :: "byte list" where
  "error_report = [0x11, 0xFF, 0xFF, 0x05, 0x3A, 0x02, 0x00]"

text \<open>
  Mappings that leave the middle button to pass through and give the gesture control,
  the back button and the horizontal scroll to the left an action.
\<close>

definition example_mappings :: "(string \<times> string) list" where
  "example_mappings =
     [(''middle'', ''none''), (''gesture'', ''task_view''), (''xbutton1'', ''alt_tab''),
      (''hscroll_left'', ''browser_back'')]"

text \<open>
  A configuration to select from: the default profile and one for a browser, with the
  mappings of a given dictionary.
\<close>

definition browser_profile :: "(string \<times> string) list \<Rightarrow> profile" where
  "browser_profile m = \<lparr>apps = Some [str ''Chrome.EXE''], mappings = Some m\<rparr>"

definition example_config :: "(string \<times> string) list \<Rightarrow> config" where
  "example_config m =
     \<lparr>active_profile = Some ''browser'',
      profiles = Some [(''default'', \<lparr>apps = Some [], mappings = None\<rparr>),
                       (''browser'', browser_profile m)],
      settings = None\<rparr>"

text \<open>
  A configuration with a third profile, for an editor whose executable is named
  \<open>Editeur.EXE\<close> with an acute accent on its first letter (code point 201; the small
  letter is 233), and that name as the system reports it, in small letters.
\<close>

definition editor_profile :: profile where
  "editor_profile = \<lparr>apps = Some [201 # str ''diteur.EXE''], mappings = None\<rparr>"

definition selection_config :: config where
  "selection_config =
     \<lparr>active_profile = Some ''default'',
      profiles = Some [(''default'', \<lparr>apps = Some [], mappings = None\<rparr>),
                       (''browser'', browser_profile []),
                       (''editor'', editor_profile)],
      settings = None\<rparr>"

definition editor_exe :: pystr where
  "editor_exe = 233 # str ''diteur.exe''"

text \<open>An engine to rewire: a fresh hook, the example configuration, all handlers enabled.\<close>

definition example_engine :: "(string \<times> string) list \<Rightarrow> engine" where
  "example_engine m =
     \<lparr>hook = MouseHook_init unnamed_devices lower_latin1 \<lparr>enabled = True, executed = []\<rparr>,
      cfg = example_config m,
      current_profile = ''browser''\<rparr>"


section \<open>Properties of hiword and of the classification\<close>

lemma and_ffff: "(k::int) AND 0xFFFF = take_bit 16 k"
proof -
  have "(0xFFFF::int) = mask 16" by (simp add: mask_eq_exp_minus_1)
  then show ?thesis by (simp add: take_bit_eq_mask)
qed

lemma signed_take_bit_15:
  "signed_take_bit 15 (take_bit 16 (k::int)) =
     (if take_bit 16 k \<ge> 0x8000 then take_bit 16 k - 0x10000 else take_bit 16 k)"
proof -
  define v where "v = take_bit 16 k"
  have r: "0 \<le> v" "v < 65536"
    using take_bit_int_less_exp [of 16 k] by (simp_all add: v_def)
  have "signed_take_bit 15 v = (v + 32768) mod 65536 - 32768"
    by (simp add: signed_take_bit_eq_take_bit_shift take_bit_eq_mod)
  also have "\<dots> = (if v \<ge> 0x8000 then v - 0x10000 else v)"
  proof (cases "v \<ge> 0x8000")
    case True
    have "v + 32768 = (v - 65536 + 32768) + 65536" by arith
    then have "(v + 32768) mod 65536 = ((v - 65536 + 32768) + 65536) mod 65536"
      by (rule arg_cong)
    also have "\<dots> = (v - 65536 + 32768) mod 65536" by (simp only: mod_add_self2)
    also have "\<dots> = v - 65536 + 32768"
      using True r by (intro mod_pos_pos_trivial) arith+
    finally show ?thesis using True by simp
  next
    case False
    then have "(v + 32768) mod 65536 = v + 32768"
      using r by (simp add: mod_pos_pos_trivial)
    then show ?thesis using False by simp
  qed
  finally show ?thesis by (simp add: v_def)
qed

lemma uint32_take: "take_bit 32 (uint (d::32 word)) = uint d"
  by (rule take_bit_int_eq_self) (use uint_lt2p [of d] in simp_all)

lemma uint_high_word:
  "uint (ucast (drop_bit 16 d) :: 16 word) = take_bit 16 (drop_bit 16 (uint (d :: 32 word)))"
  by (simp add: unsigned_ucast_eq unsigned_drop_bit_eq uint32_take)

lemma hiword_sint: "hiword (uint d) = signed_high_word d"
  by (simp add: hiword_def signed_high_word_def Let_def and_ffff sint_uint signed_take_bit_15
      uint_high_word)

lemma hiword_neg:
  assumes "(0x8000 :: 16 word) \<le> ucast (drop_bit 16 d)"
  shows "hiword (uint (d::32 word)) < 0"
proof -
  have "uint (0x8000 :: 16 word) \<le> uint (ucast (drop_bit 16 d) :: 16 word)"
    using assms by (simp only: word_le_def)
  then have "0x8000 \<le> take_bit 16 (drop_bit 16 (uint d))"
    by (simp add: uint_high_word)
  moreover have "take_bit 16 (drop_bit 16 (uint d)) < 65536"
    using take_bit_int_less_exp [of 16 "drop_bit 16 (uint d)"] by simp
  ultimately show ?thesis
    by (simp add: hiword_def Let_def and_ffff)
qed

lemma signed_high_word_range:
  "- 32768 \<le> signed_high_word d \<and> signed_high_word d \<le> 32767"
proof -
  have "- (2 ^ (LENGTH(16) - 1)) \<le> sint (ucast (drop_bit 16 d) :: 16 word)"
    by (rule sint_ge)
  moreover have "sint (ucast (drop_bit 16 d) :: 16 word) < 2 ^ (LENGTH(16) - 1)"
    by (rule sint_lt)
  ultimately show ?thesis
    unfolding signed_high_word_def by simp
qed

lemma classify_xdown:
  "classify h WM_XBUTTONDOWN (uint d) =
     (if signed_high_word d = XBUTTON1 then
        Classified (Some (MouseEvent XBUTTON1_DOWN None)) (XBUTTON1_DOWN \<in> blocked_events h)
      else if signed_high_word d = XBUTTON2 then
        Classified (Some (MouseEvent XBUTTON2_DOWN None)) (XBUTTON2_DOWN \<in> blocked_events h)
      else Classified None False)"
  by (simp add: classify_def Let_def hiword_sint)

lemma classify_xup:
  "classify h WM_XBUTTONUP (uint d) =
     (if signed_high_word d = XBUTTON1 then
        Classified (Some (MouseEvent XBUTTON1_UP None)) (XBUTTON1_UP \<in> blocked_events h)
      else if signed_high_word d = XBUTTON2 then
        Classified (Some (MouseEvent XBUTTON2_UP None)) (XBUTTON2_UP \<in> blocked_events h)
      else Classified None False)"
  by (simp add: classify_def Let_def hiword_sint)

lemma classify_hwheel_neg:
  assumes "\<not> invert_hscroll h" "(0x8000 :: 16 word) \<le> ucast (drop_bit 16 d)"
  shows "classify h WM_MOUSEHWHEEL (uint d) =
     Classified (Some (MouseEvent HSCROLL_RIGHT (Some (- signed_high_word d))))
       (HSCROLL_RIGHT \<in> blocked_events h)"
  using assms hiword_neg [OF assms(2)]
  by (simp add: classify_def Let_def hiword_sint)

lemma classify_wheel_neg:
  assumes "invert_vscroll h" "(0x8000 :: 16 word) \<le> ucast (drop_bit 16 d)"
  shows "\<exists>h'. classify h WM_MOUSEWHEEL (uint d) = Blocked_Now h' \<and>
     pending_vscroll h' = pending_vscroll h - signed_high_word d \<and>
     pending_vscroll h' > pending_vscroll h"
  using assms hiword_neg [OF assms(2)]
  by (simp add: classify_def Let_def hiword_sint)

text \<open>
  Claim C10. For every 32-bit \<open>mouseData\<close> value \<open>d\<close>, \<open>hiword\<close> yields the high 16 bits of
  \<open>d\<close> read as a signed 16-bit integer, so the result lies between -32768 and 32767.
  Hence a wheel delta whose high word is at least 0x8000 is negative: with vertical
  inversion on, the accumulator grows by its magnitude, and with horizontal inversion
  off, the tick is a scroll-right event. The side-button selector that is compared with
  \<open>XBUTTON1\<close> and \<open>XBUTTON2\<close>, on the down and on the up edge, is this signed value.
\<close>

theorem hiword_signed_high_word:
  "hiword (uint d) = signed_high_word d \<and>
   - 32768 \<le> hiword (uint d) \<and> hiword (uint d) \<le> 32767 \<and>
   ((0x8000 :: 16 word) \<le> ucast (drop_bit 16 d) \<longrightarrow> hiword (uint d) < 0) \<and>
   (invert_vscroll h \<and> (0x8000 :: 16 word) \<le> ucast (drop_bit 16 d) \<longrightarrow>
      (\<exists>h'. classify h WM_MOUSEWHEEL (uint d) = Blocked_Now h' \<and>
            pending_vscroll h' = pending_vscroll h - signed_high_word d \<and>
            pending_vscroll h' > pending_vscroll h)) \<and>
   (\<not> invert_hscroll h \<and> (0x8000 :: 16 word) \<le> ucast (drop_bit 16 d) \<longrightarrow>
      classify h WM_MOUSEHWHEEL (uint d) =
        Classified (Some (MouseEvent HSCROLL_RIGHT (Some (- signed_high_word d))))
          (HSCROLL_RIGHT \<in> blocked_events h)) \<and>
   classify h WM_XBUTTONDOWN (uint d) =
     (if signed_high_word d = XBUTTON1 then
        Classified (Some (MouseEvent XBUTTON1_DOWN None)) (XBUTTON1_DOWN \<in> blocked_events h)
      else if signed_high_word d = XBUTTON2 then
        Classified (Some (MouseEvent XBUTTON2_DOWN None)) (XBUTTON2_DOWN \<in> blocked_events h)
      else Classified None False) \<and>
   classify h WM_XBUTTONUP (uint d) =
     (if signed_high_word d = XBUTTON1 then
        Classified (Some (MouseEvent XBUTTON1_UP None)) (XBUTTON1_UP \<in> blocked_events h)
      else if signed_high_word d = XBUTTON2 then
        Classified (Some (MouseEvent XBUTTON2_UP None)) (XBUTTON2_UP \<in> blocked_events h)
      else Classified None False)"
proof -
  have r: "- 32768 \<le> hiword (uint d) \<and> hiword (uint d) \<le> 32767"
    using signed_high_word_range [of d] by (simp only: hiword_sint)
  show ?thesis
    using r hiword_sint [of d] hiword_neg [of d] classify_wheel_neg [of h d]
      classify_hwheel_neg [of h d] classify_xdown [of h d] classify_xup [of h d]
    by blast
qed

text \<open>
  The theorem at \<open>mouseData = 0xFFFB0000\<close> (five ticks down or right), on the hook with
  vertical inversion switched on: the high word 0xFFFB is read as -5.
\<close>

theorem hiword_signed_high_word_witness:
  "(0x8000 :: 16 word) \<le> ucast (drop_bit 16 (0xFFFB0000 :: 32 word)) \<and>
   invert_vscroll scrolling_hook \<and>
   \<not> invert_hscroll scrolling_hook \<and>
   hiword (uint (0xFFFB0000 :: 32 word)) = - 5 \<and>
   signed_high_word 0xFFFB0000 = - 5 \<and>
   (\<exists>h'. classify scrolling_hook WM_MOUSEWHEEL (uint (0xFFFB0000 :: 32 word)) =
           Blocked_Now h' \<and> pending_vscroll h' = 5) \<and>
   classify scrolling_hook WM_MOUSEHWHEEL (uint (0xFFFB0000 :: 32 word)) =
     Classified (Some (MouseEvent HSCROLL_RIGHT (Some 5))) False"
proof -
  have hw: "(0x8000 :: 16 word) \<le> ucast (drop_bit 16 (0xFFFB0000 :: 32 word))"
    by simp
  have v: "hiword (uint (0xFFFB0000 :: 32 word)) = - 5"
    by (simp add: hiword_def)
  have i: "invert_vscroll scrolling_hook" "\<not> invert_hscroll scrolling_hook"
    "pending_vscroll scrolling_hook = 0" "blocked_events scrolling_hook = {}"
    by (simp_all add: scrolling_hook_def MouseHook_init_def)
  show ?thesis
    using hiword_signed_high_word [of "0xFFFB0000" scrolling_hook] hw v i
    by auto
qed


section \<open>Scroll accumulation and the deferred re-injection\<close>

lemma hiword_ticks:
  "hiword (uint (mouseData (wheel_tick 3))) = 3"
  "hiword (uint (mouseData (wheel_tick (- 5)))) = - 5"
  "hiword (uint (mouseData (wheel_tick 1))) = 1"
  by (simp_all add: wheel_tick_def hiword_def)

lemma flags_wheel_tick: "flags (wheel_tick d) AND INJECTED_FLAG = 0"
  by (simp add: wheel_tick_def)

text \<open>
  One inverted vertical tick: the negated delta is added, the message is posted unless
  one is in the queue already, and the original event is blocked.
\<close>

lemma vscroll_tick:
  assumes "invert_vscroll h" "hwnd_true (ri_hwnd h)" "hiword (uint (mouseData data)) \<noteq> 0"
    "flags data AND INJECTED_FLAG = 0"
  shows "low_level_handler h HC_ACTION WM_MOUSEWHEEL data =
     (Inr Return_1,
      if vscroll_posted h
      then h\<lparr>pending_vscroll := pending_vscroll h - hiword (uint (mouseData data))\<rparr>
      else h\<lparr>pending_vscroll := pending_vscroll h - hiword (uint (mouseData data)),
             vscroll_posted := True,
             msg_queue := msg_queue h @ [WM_APP_INJECT_VSCROLL]\<rparr>)"
  using assms by (simp add: low_level_handler_def classify_def Let_def)

lemma three_ticks:
  assumes "invert_vscroll h" "hwnd_true (ri_hwnd h)" "\<not> vscroll_posted h"
    "pending_vscroll h = 0" "msg_queue h = []"
  shows "hook_calls h three_wheel_ticks =
          (Inr [Return_1, Return_1, Return_1],
           h\<lparr>pending_vscroll := 1, vscroll_posted := True,
             msg_queue := [WM_APP_INJECT_VSCROLL]\<rparr>)"
  using assms
  by (simp add: three_wheel_ticks_def vscroll_tick hiword_ticks flags_wheel_tick)

lemma deliver_one_vscroll:
  assumes "msg_queue h = [WM_APP_INJECT_VSCROLL]" "pending_vscroll h \<noteq> 0"
  shows "deliver_posted (Suc n) h =
    (None, h\<lparr>pending_vscroll := 0, vscroll_posted := False, msg_queue := [],
             injected := injected h @ [(MOUSEEVENTF_WHEEL, pending_vscroll h)]\<rparr>)"
  using assms by (cases n) (simp_all add: ri_wndproc_def Let_def)

lemma scrolling_hook_fields:
  "invert_vscroll scrolling_hook"
  "hwnd_true (ri_hwnd scrolling_hook)"
  "\<not> vscroll_posted scrolling_hook"
  "pending_vscroll scrolling_hook = 0"
  "msg_queue scrolling_hook = []"
  "injected scrolling_hook = []"
  by (simp_all add: scrolling_hook_def MouseHook_init_def hwnd_true_def)

text \<open>
  Claim C1, as amended. With vertical inversion on, the hidden window present, the
  accumulator empty and no re-injection queued, the ticks +3, -5, +1 are all blocked and
  leave exactly one re-injection message in the queue; when the window procedure handles
  it, exactly one wheel event is synthesized, its delta is +1 (the sum -3 + 5 - 1 of the
  negated deltas), and the accumulator is 0 and the queued flag cleared right after.
  Nothing else of the hook changes, however long the message pump runs.
\<close>

theorem scroll_flush_three_ticks:
  assumes "invert_vscroll h" "hwnd_true (ri_hwnd h)" "\<not> vscroll_posted h"
    "pending_vscroll h = 0" "msg_queue h = []"
  shows "hook_calls h three_wheel_ticks =
          (Inr [Return_1, Return_1, Return_1],
           h\<lparr>pending_vscroll := 1, vscroll_posted := True,
             msg_queue := [WM_APP_INJECT_VSCROLL]\<rparr>) \<and>
         deliver_posted (Suc n)
           (h\<lparr>pending_vscroll := 1, vscroll_posted := True,
              msg_queue := [WM_APP_INJECT_VSCROLL]\<rparr>) =
          (None, h\<lparr>pending_vscroll := 0, vscroll_posted := False, msg_queue := [],
                   injected := injected h @ [(MOUSEEVENTF_WHEEL, 1)]\<rparr>)"
proof -
  have "deliver_posted (Suc n)
           (h\<lparr>pending_vscroll := 1, vscroll_posted := True,
              msg_queue := [WM_APP_INJECT_VSCROLL]\<rparr>) =
          (None, h\<lparr>pending_vscroll := 0, vscroll_posted := False, msg_queue := [],
                   injected := injected h @ [(MOUSEEVENTF_WHEEL, 1)]\<rparr>)"
    using deliver_one_vscroll
      [of "h\<lparr>pending_vscroll := 1, vscroll_posted := True,
              msg_queue := [WM_APP_INJECT_VSCROLL]\<rparr>" n]
    by simp
  with three_ticks [OF assms] show ?thesis by simp
qed

text \<open>
  The theorem on the hook with vertical inversion switched on and the hidden window
  created: one event, of delta +1, and an empty accumulator.
\<close>

theorem scroll_flush_three_ticks_witness:
  "invert_vscroll scrolling_hook \<and>
   hwnd_true (ri_hwnd scrolling_hook) \<and>
   \<not> vscroll_posted scrolling_hook \<and>
   pending_vscroll scrolling_hook = 0 \<and>
   msg_queue scrolling_hook = [] \<and>
   injected (snd (deliver_posted 1 (snd (hook_calls scrolling_hook three_wheel_ticks)))) =
     [(MOUSEEVENTF_WHEEL, 1)] \<and>
   pending_vscroll (snd (deliver_posted 1 (snd (hook_calls scrolling_hook three_wheel_ticks)))) =
     0"
  using scroll_flush_three_ticks [OF scrolling_hook_fields(1-5), of 0] scrolling_hook_fields
  by simp

text \<open>
  Claim C1 as stated fails: on that hook, the one event synthesized for the ticks
  +3, -5, +1 has delta +1, not -1.
\<close>

theorem scroll_flush_delta_counterexample:
  "injected (snd (deliver_posted 1 (snd (hook_calls scrolling_hook three_wheel_ticks)))) \<noteq>
     [(MOUSEEVENTF_WHEEL, - 1)]"
proof -
  have "injected (snd (deliver_posted 1 (snd (hook_calls scrolling_hook three_wheel_ticks)))) =
     [(MOUSEEVENTF_WHEEL, 1)]"
    using three_ticks [OF scrolling_hook_fields(1-5)] scrolling_hook_fields(6)
      deliver_one_vscroll
        [of "scrolling_hook\<lparr>pending_vscroll := 1, vscroll_posted := True,
               msg_queue := [WM_APP_INJECT_VSCROLL]\<rparr>" 0]
    by simp
  then show ?thesis by simp
qed


section \<open>Dispatch isolates failing handlers\<close>

lemma run_callbacks_all:
  assumes "\<forall>cb \<in> set cbs. raises_only_exceptions cb"
  shows "run_callbacks cbs ev h =
    (None, h\<lparr>reported := reported h @ caught_messages cbs ev (world h),
             world := call_all cbs ev (world h)\<rparr>)"
  using assms
proof (induction cbs arbitrary: h)
  case Nil
  then show ?case by simp
next
  case (Cons cb cbs)
  obtain r w where cbw: "cb ev (world h) = (r, w)" by (cases "cb ev (world h)")
  have ok: "\<forall>c \<in> set cbs. raises_only_exceptions c" using Cons.prems by simp
  show ?case
  proof (cases r)
    case None
    then show ?thesis using cbw Cons.IH [OF ok] by simp
  next
    case (Some x)
    show ?thesis
    proof (cases x)
      case (Exception e)
      then show ?thesis using cbw Some Cons.IH [OF ok] by simp
    next
      case (Non_Exception e)
      have "raises_only_exceptions cb" using Cons.prems by simp
      then have "fst (cb ev (world h)) \<noteq> Some (Non_Exception e)"
        unfolding raises_only_exceptions_def by blast
      then show ?thesis using cbw Some Non_Exception by simp
    qed
  qed
qed

lemma three_handlers:
  "callbacks_get three_handler_hook MIDDLE_DOWN =
    [logging_handler 1, failing_handler 2 ''boom'', logging_handler 3]"
  "world three_handler_hook = []"
  "reported three_handler_hook = []"
  by (simp_all add: three_handler_hook_def register_def callbacks_get_def MouseHook_init_def)

lemma example_handlers_raise_only_exceptions:
  "raises_only_exceptions (logging_handler k)"
  "raises_only_exceptions (failing_handler k m)"
  by (simp_all add: raises_only_exceptions_def logging_handler_def failing_handler_def)

text \<open>
  Claim C9. When the callbacks registered for the event's type raise nothing beyond
  \<open>Exception\<close>, \<open>_dispatch\<close> returns without raising; every registered callback has
  been called, in the order of registration, each on the state its predecessor left,
  also after one that raised; and each exception raised has been reported.
\<close>

theorem dispatch_isolates_failures:
  assumes "\<forall>cb \<in> set (callbacks_get h (event_type ev)). raises_only_exceptions cb"
  shows "dispatch h ev =
    (None,
     h\<lparr>reported :=
         reported h @ caught_messages (callbacks_get h (event_type ev)) ev (world h),
       dispatched := dispatched h @ [ev],
       world := call_all (callbacks_get h (event_type ev)) ev (world h)\<rparr>)"
  unfolding dispatch_def using run_callbacks_all [OF assms] by simp

text \<open>
  The theorem on three handlers registered for the middle button, the second of which
  raises: all three have run, in order, and the failure is reported, not raised.
\<close>

theorem dispatch_isolates_failures_witness:
  "callbacks_get three_handler_hook MIDDLE_DOWN =
     [logging_handler 1, failing_handler 2 ''boom'', logging_handler 3] \<and>
   raises_only_exceptions (logging_handler 1) \<and>
   raises_only_exceptions (failing_handler 2 ''boom'') \<and>
   raises_only_exceptions (logging_handler 3) \<and>
   fst (dispatch three_handler_hook (MouseEvent MIDDLE_DOWN None)) = None \<and>
   world (snd (dispatch three_handler_hook (MouseEvent MIDDLE_DOWN None))) = [1, 2, 3] \<and>
   reported (snd (dispatch three_handler_hook (MouseEvent MIDDLE_DOWN None))) = [''boom'']"
proof -
  have t: "event_type (MouseEvent MIDDLE_DOWN None) = MIDDLE_DOWN"
    by (simp add: MouseEvent_def)
  have ok: "\<forall>cb \<in> set (callbacks_get three_handler_hook
                (event_type (MouseEvent MIDDLE_DOWN None))). raises_only_exceptions cb"
    by (simp only: t three_handlers) (simp add: example_handlers_raise_only_exceptions)
  have c: "call_all [logging_handler 1, failing_handler 2 ''boom'', logging_handler 3]
             (MouseEvent MIDDLE_DOWN None) [] = [1, 2, 3]"
    "caught_messages [logging_handler 1, failing_handler 2 ''boom'', logging_handler 3]
             (MouseEvent MIDDLE_DOWN None) [] = [''boom'']"
    by (simp_all add: logging_handler_def failing_handler_def)
  have d: "dispatch three_handler_hook (MouseEvent MIDDLE_DOWN None) =
     (None,
      three_handler_hook
       \<lparr>reported := [''boom''],
         dispatched := dispatched three_handler_hook @ [MouseEvent MIDDLE_DOWN None],
         world := [1, 2, 3]\<rparr>)"
    using dispatch_isolates_failures [OF ok]
    by (simp only: t three_handlers c append_Nil)
  show ?thesis
    by (simp only: d three_handlers example_handlers_raise_only_exceptions) simp
qed


section \<open>Selection of the profile for an application\<close>

lemma lists_app_iff:
  "lists_app lower pdata exe_name \<longleftrightarrow>
   lower exe_name \<in> set (map lower (case apps pdata of None \<Rightarrow> [] | Some a \<Rightarrow> a))"
proof (cases "apps pdata")
  case None
  then show ?thesis by (simp add: lists_app_def)
next
  case (Some as)
  have "(\<exists>a\<in>set as. lower a = lower exe_name) \<longleftrightarrow> lower exe_name \<in> lower ` set as"
    by (metis image_iff)
  then show ?thesis using Some by (simp add: lists_app_def same_ignoring_case_def)
qed

lemma loop_default:
  "exe_name = [] \<or> (\<forall>(pname, pdata) \<in> set ps. \<not> lists_app lower pdata exe_name) \<Longrightarrow>
   profile_for_app_loop lower ps exe_name = ''default''"
  by (induction lower ps exe_name rule: profile_for_app_loop.induct)
    (auto simp: lists_app_iff)

lemma loop_case_insensitive:
  "same_ignoring_case lower a b \<Longrightarrow> a \<noteq> [] \<Longrightarrow> b \<noteq> [] \<Longrightarrow>
   profile_for_app_loop lower ps a = profile_for_app_loop lower ps b"
  by (induction lower ps a rule: profile_for_app_loop.induct)
    (auto simp: same_ignoring_case_def)

lemma loop_found:
  "profile_for_app_loop lower ps exe_name \<noteq> ''default'' \<Longrightarrow>
   \<exists>pdata. (profile_for_app_loop lower ps exe_name, pdata) \<in> set ps \<and>
           lists_app lower pdata exe_name"
  by (induction lower ps exe_name rule: profile_for_app_loop.induct)
    (auto simp: lists_app_iff split: if_splits)

lemma loop_first:
  "exe_name \<noteq> [] \<Longrightarrow> lists_app lower pdata exe_name \<Longrightarrow>
   \<forall>(n, d) \<in> set before. \<not> lists_app lower d exe_name \<Longrightarrow>
   profile_for_app_loop lower (before @ (pname, pdata) # rest) exe_name = pname"
  by (induction lower before exe_name rule: profile_for_app_loop.induct)
    (auto simp: lists_app_iff)

lemma gpa_loop:
  "get_profile_for_app lower c x = profile_for_app_loop lower (profiles_of c) x"
  by (simp add: get_profile_for_app_def profiles_of_def)

text \<open>
  Names that differ in the case of ASCII letters only are names that \<open>str.lower\<close> maps
  to the same string, and they are empty together.
\<close>

lemma differ_in_case_only_same:
  "lowers_ascii lower \<Longrightarrow> differ_in_case_only a b \<Longrightarrow> same_ignoring_case lower a b"
  by (simp add: lowers_ascii_def differ_in_case_only_def same_ignoring_case_def)

lemma differ_in_case_only_empty: "differ_in_case_only a b \<Longrightarrow> a = [] \<longleftrightarrow> b = []"
proof -
  assume "differ_in_case_only a b"
  then have "length (map ascii_lower a) = length (map ascii_lower b)"
    by (simp only: differ_in_case_only_def)
  then show ?thesis by auto
qed

lemma listed_lists_app:
  "apps pdata = Some as \<Longrightarrow> listed \<in> set as \<Longrightarrow> same_ignoring_case lower listed exe_name \<Longrightarrow>
   lists_app lower pdata exe_name"
  unfolding lists_app_def by (simp only: option.case) (rule bexI)

text \<open>The example of \<open>str.lower\<close> lower-cases ASCII names as Python's does.\<close>

lemma lower_latin1_lowers_ascii: "lowers_ascii lower_latin1"
proof -
  have "map lower_latin1_cp s = map ascii_lower s" if "is_ascii s" for s
  proof (rule map_cong [OF refl])
    fix c assume "c \<in> set s"
    with that have "c < 128" by (simp add: is_ascii_def list_all_iff)
    then show "lower_latin1_cp c = ascii_lower c"
      by (simp add: lower_latin1_cp_def ascii_lower_def)
  qed
  then show ?thesis by (simp add: lowers_ascii_def lower_latin1_def)
qed

lemma example_lowered:
  "lower_latin1 (str ''notepad.exe'') = str ''notepad.exe''"
  "lower_latin1 (str ''Chrome.EXE'') = str ''chrome.exe''"
  "lower_latin1 (str ''chrome.exe'') = str ''chrome.exe''"
  "lower_latin1 (201 # str ''diteur.EXE'') = 233 # str ''diteur.exe''"
  "lower_latin1 (233 # str ''diteur.exe'') = 233 # str ''diteur.exe''"
  "str ''notepad.exe'' \<noteq> str ''chrome.exe''"
  "str ''notepad.exe'' \<noteq> 233 # str ''diteur.exe''"
  "str ''chrome.exe'' \<noteq> 233 # str ''diteur.exe''"
  "str ''chrome.exe'' \<noteq> []" "str ''CHROME.exe'' \<noteq> []"
  by (simp_all add: lower_latin1_def lower_latin1_cp_def str_def)

lemma example_names:
  "differ_in_case_only (str ''CHROME.exe'') (str ''chrome.exe'')"
  "differ_in_case_only (str ''Chrome.EXE'') (str ''chrome.exe'')"
  "same_ignoring_case lower_latin1 (201 # str ''diteur.EXE'') editor_exe"
  "lists_app lower_latin1 editor_profile editor_exe"
  "\<not> lists_app lower_latin1 (browser_profile m) editor_exe"
  "\<not> lists_app lower_latin1 (browser_profile m) (str ''notepad.exe'')"
  "\<not> lists_app lower_latin1 editor_profile (str ''notepad.exe'')"
  "\<not> lists_app lower_latin1 \<lparr>apps = Some [], mappings = None\<rparr> x"
proof -
  show "differ_in_case_only (str ''CHROME.exe'') (str ''chrome.exe'')"
    by (simp add: differ_in_case_only_def is_ascii_def ascii_lower_def str_def)
  show "differ_in_case_only (str ''Chrome.EXE'') (str ''chrome.exe'')"
    by (simp add: differ_in_case_only_def is_ascii_def ascii_lower_def str_def)
  show "same_ignoring_case lower_latin1 (201 # str ''diteur.EXE'') editor_exe"
    by (simp only: same_ignoring_case_def editor_exe_def example_lowered)
  show "lists_app lower_latin1 editor_profile editor_exe"
    by (simp add: lists_app_def editor_profile_def same_ignoring_case_def editor_exe_def
        example_lowered)
  show "\<not> lists_app lower_latin1 (browser_profile m) editor_exe"
    using example_lowered(8)
    by (simp add: lists_app_def browser_profile_def same_ignoring_case_def editor_exe_def
        example_lowered(2,5))
  show "\<not> lists_app lower_latin1 (browser_profile m) (str ''notepad.exe'')"
    using example_lowered(6)
    by (simp add: lists_app_def browser_profile_def same_ignoring_case_def
        example_lowered(1,2))
  show "\<not> lists_app lower_latin1 editor_profile (str ''notepad.exe'')"
    using example_lowered(7)
    by (simp add: lists_app_def editor_profile_def same_ignoring_case_def
        example_lowered(1,4))
  show "\<not> lists_app lower_latin1 \<lparr>apps = Some [], mappings = None\<rparr> x"
    by (simp add: lists_app_def)
qed

text \<open>
  Claim C8. For every foreground executable name, \<open>get_profile_for_app\<close> compares the
  name with the entries of the application lists of the profiles after \<open>str.lower\<close> on
  both sides, whatever the characters of the names are. It returns \<open>"default"\<close> whenever
  the name is empty or no profile's list holds the name up to \<open>str.lower\<close>; two
  non-empty names with the same lower-case form select the same profile; a profile other
  than the default that is returned is one whose list holds the name up to \<open>str.lower\<close>;
  and the first profile whose list holds the name up to \<open>str.lower\<close> is the one returned.
  As \<open>str.lower\<close> replaces every capital letter of an ASCII name by the small one, the
  comparison ignores letter case: two ASCII names that differ in the case of letters only
  select the same profile, and a name selects the first profile that lists it or lists
  an ASCII name that differs from it in the case of letters only.
\<close>

theorem get_profile_for_app_case_insensitive:
  "(exe_name = [] \<or>
    (\<forall>(pname, pdata) \<in> set (profiles_of c). \<not> lists_app lower pdata exe_name)
      \<longrightarrow> get_profile_for_app lower c exe_name = ''default'') \<and>
   (same_ignoring_case lower a b \<and> a \<noteq> [] \<and> b \<noteq> []
      \<longrightarrow> get_profile_for_app lower c a = get_profile_for_app lower c b) \<and>
   (get_profile_for_app lower c exe_name \<noteq> ''default''
      \<longrightarrow> (\<exists>pdata. (get_profile_for_app lower c exe_name, pdata) \<in> set (profiles_of c) \<and>
                   lists_app lower pdata exe_name)) \<and>
   (profiles_of c = before @ (pname, pdata) # rest \<and> exe_name \<noteq> [] \<and>
    lists_app lower pdata exe_name \<and>
    (\<forall>(n, d) \<in> set before. \<not> lists_app lower d exe_name)
      \<longrightarrow> get_profile_for_app lower c exe_name = pname) \<and>
   (lowers_ascii lower \<and> differ_in_case_only a b
      \<longrightarrow> get_profile_for_app lower c a = get_profile_for_app lower c b) \<and>
   (lowers_ascii lower \<and> profiles_of c = before @ (pname, pdata) # rest \<and>
    exe_name \<noteq> [] \<and> apps pdata = Some as \<and> listed \<in> set as \<and>
    differ_in_case_only listed exe_name \<and>
    (\<forall>(n, d) \<in> set before. \<not> lists_app lower d exe_name)
      \<longrightarrow> get_profile_for_app lower c exe_name = pname)"
proof (intro conjI impI)
  assume "exe_name = [] \<or>
    (\<forall>(pname, pdata) \<in> set (profiles_of c). \<not> lists_app lower pdata exe_name)"
  then show "get_profile_for_app lower c exe_name = ''default''"
    unfolding gpa_loop by (rule loop_default)
next
  assume h: "same_ignoring_case lower a b \<and> a \<noteq> [] \<and> b \<noteq> []"
  then show "get_profile_for_app lower c a = get_profile_for_app lower c b"
    unfolding gpa_loop using loop_case_insensitive [of lower a b "profiles_of c"] by simp
next
  assume "get_profile_for_app lower c exe_name \<noteq> ''default''"
  then show "\<exists>pdata. (get_profile_for_app lower c exe_name, pdata) \<in> set (profiles_of c) \<and>
                   lists_app lower pdata exe_name"
    unfolding gpa_loop by (rule loop_found)
next
  assume h: "profiles_of c = before @ (pname, pdata) # rest \<and> exe_name \<noteq> [] \<and>
    lists_app lower pdata exe_name \<and>
    (\<forall>(n, d) \<in> set before. \<not> lists_app lower d exe_name)"
  then have "profile_for_app_loop lower (before @ (pname, pdata) # rest) exe_name = pname"
    using loop_first [of exe_name lower pdata before pname rest] by blast
  with h show "get_profile_for_app lower c exe_name = pname"
    unfolding gpa_loop by simp
next
  assume h: "lowers_ascii lower \<and> differ_in_case_only a b"
  then have s: "same_ignoring_case lower a b"
    using differ_in_case_only_same [of lower a b] by simp
  from h have e: "a = [] \<longleftrightarrow> b = []"
    using differ_in_case_only_empty [of a b] by simp
  show "get_profile_for_app lower c a = get_profile_for_app lower c b"
  proof (cases "a = []")
    case True
    with e show ?thesis by simp
  next
    case False
    with e have "b \<noteq> []" by simp
    with s False show ?thesis
      unfolding gpa_loop using loop_case_insensitive [of lower a b "profiles_of c"] by simp
  qed
next
  assume h: "lowers_ascii lower \<and> profiles_of c = before @ (pname, pdata) # rest \<and>
    exe_name \<noteq> [] \<and> apps pdata = Some as \<and> listed \<in> set as \<and>
    differ_in_case_only listed exe_name \<and>
    (\<forall>(n, d) \<in> set before. \<not> lists_app lower d exe_name)"
  then have "same_ignoring_case lower listed exe_name"
    using differ_in_case_only_same [of lower listed exe_name] by simp
  with h have "lists_app lower pdata exe_name"
    using listed_lists_app [of pdata as listed lower exe_name] by simp
  with h have "profile_for_app_loop lower (before @ (pname, pdata) # rest) exe_name = pname"
    using loop_first [of exe_name lower pdata before pname rest] by blast
  with h show "get_profile_for_app lower c exe_name = pname"
    unfolding gpa_loop by simp
qed

text \<open>
  The theorem on the example configuration, with \<open>str.lower\<close> as it is on the code points
  below 256: no list holds \<open>notepad.exe\<close>, so the default profile is selected, as it is
  for the empty name; \<open>CHROME.exe\<close> and \<open>chrome.exe\<close> select the same profile, the browser
  profile, which lists \<open>Chrome.EXE\<close>; and the name of the editor in small letters, its
  first letter accented, selects the editor profile, which lists it in capitals.
\<close>

theorem get_profile_for_app_case_insensitive_witness:
  "lowers_ascii lower_latin1 \<and>
   \<not> lists_app lower_latin1 \<lparr>apps = Some [], mappings = None\<rparr> (str ''notepad.exe'') \<and>
   \<not> lists_app lower_latin1 (browser_profile []) (str ''notepad.exe'') \<and>
   \<not> lists_app lower_latin1 editor_profile (str ''notepad.exe'') \<and>
   get_profile_for_app lower_latin1 selection_config (str ''notepad.exe'') = ''default'' \<and>
   get_profile_for_app lower_latin1 selection_config [] = ''default'' \<and>
   differ_in_case_only (str ''CHROME.exe'') (str ''chrome.exe'') \<and>
   get_profile_for_app lower_latin1 selection_config (str ''CHROME.exe'') =
     get_profile_for_app lower_latin1 selection_config (str ''chrome.exe'') \<and>
   differ_in_case_only (str ''Chrome.EXE'') (str ''chrome.exe'') \<and>
   get_profile_for_app lower_latin1 selection_config (str ''chrome.exe'') = ''browser'' \<and>
   same_ignoring_case lower_latin1 (201 # str ''diteur.EXE'') editor_exe \<and>
   get_profile_for_app lower_latin1 selection_config (201 # str ''diteur.EXE'') =
     get_profile_for_app lower_latin1 selection_config editor_exe \<and>
   lists_app lower_latin1 editor_profile editor_exe \<and>
   get_profile_for_app lower_latin1 selection_config editor_exe = ''editor''"
proof -
  let ?d = "(''default'', \<lparr>apps = Some [], mappings = None\<rparr>)"
  have p: "profiles_of selection_config =
      [?d] @ (''browser'', browser_profile []) # [(''editor'', editor_profile)]"
    "profiles_of selection_config =
      [?d, (''browser'', browser_profile [])] @ (''editor'', editor_profile) # []"
    by (simp_all add: profiles_of_def selection_config_def)
  have n: "\<forall>(pname, pdata) \<in> set (profiles_of selection_config).
             \<not> lists_app lower_latin1 pdata (str ''notepad.exe'')"
    by (simp add: p(1) example_names)
  have b: "\<forall>(n, d) \<in> set [?d]. \<not> lists_app lower_latin1 d (str ''chrome.exe'')"
    by (simp add: example_names)
  have e: "\<forall>(n, d) \<in> set [?d, (''browser'', browser_profile [])].
             \<not> lists_app lower_latin1 d editor_exe"
    by (simp add: example_names)
  have a: "apps (browser_profile []) = Some [str ''Chrome.EXE'']"
    "str ''Chrome.EXE'' \<in> set [str ''Chrome.EXE'']"
    by (simp_all add: browser_profile_def)
  have ne: "201 # str ''diteur.EXE'' \<noteq> []" "editor_exe \<noteq> []" "str ''chrome.exe'' \<noteq> []"
    by (simp_all add: editor_exe_def example_lowered)
  note t1 = get_profile_for_app_case_insensitive
        [of "str ''notepad.exe''" selection_config lower_latin1
            "str ''CHROME.exe''" "str ''chrome.exe''"]
  note t2 = get_profile_for_app_case_insensitive
        [of "[]" selection_config lower_latin1
            "201 # str ''diteur.EXE''" editor_exe]
  note t3 = get_profile_for_app_case_insensitive
        [of "str ''chrome.exe''" selection_config lower_latin1
            "str ''CHROME.exe''" "str ''chrome.exe''"
            "[?d]" "''browser''" "browser_profile []" "[(''editor'', editor_profile)]"
            "[str ''Chrome.EXE'']" "str ''Chrome.EXE''"]
  note t4 = get_profile_for_app_case_insensitive
        [of editor_exe selection_config lower_latin1
            "str ''CHROME.exe''" "str ''chrome.exe''"
            "[?d, (''browser'', browser_profile [])]" "''editor''" editor_profile "[]"]
  note c5 = conjunct2 [THEN conjunct2, THEN conjunct2, THEN conjunct2]
  have c1: "get_profile_for_app lower_latin1 selection_config (str ''notepad.exe'') =
      ''default''"
    using t1 [THEN conjunct1] n by blast
  have c2: "get_profile_for_app lower_latin1 selection_config [] = ''default''"
    using t2 [THEN conjunct1] by blast
  have c3: "get_profile_for_app lower_latin1 selection_config (str ''CHROME.exe'') =
     get_profile_for_app lower_latin1 selection_config (str ''chrome.exe'')"
    using t1 [THEN c5, THEN conjunct1] lower_latin1_lowers_ascii example_names(1) by blast
  have c4: "get_profile_for_app lower_latin1 selection_config (str ''chrome.exe'') =
      ''browser''"
    using t3 [THEN c5, THEN conjunct2] lower_latin1_lowers_ascii p(1) ne(3) a
      example_names(2) b
    by blast
  have c6: "get_profile_for_app lower_latin1 selection_config (201 # str ''diteur.EXE'') =
     get_profile_for_app lower_latin1 selection_config editor_exe"
    using t2 [THEN conjunct2, THEN conjunct1] example_names(3) ne(1,2) by blast
  have c7: "get_profile_for_app lower_latin1 selection_config editor_exe = ''editor''"
    using t4 [THEN conjunct2, THEN conjunct2, THEN conjunct2, THEN conjunct1]
      p(2) ne(2) example_names(4) e
    by blast
  show ?thesis
    using lower_latin1_lowers_ascii example_names c1 c2 c3 c4 c6 c7 by blast
qed


section \<open>Decoding of notifications\<close>

lemma be16: "push_bit 8 (uint (a :: byte)) OR uint (b :: byte) = 256 * uint a + uint b"
proof -
  have t: "take_bit 8 (uint b) = uint b"
    by (rule take_bit_int_eq_self) (use uint_lt2p [of b] in simp_all)
  have "push_bit 8 (uint a) OR uint b = concat_bit 8 (uint b) (uint a)"
    by (simp add: concat_bit_def t or.commute)
  also have "\<dots> = uint b + push_bit 8 (uint a)"
    by (simp only: concat_bit_eq t)
  finally show ?thesis by (simp add: push_bit_eq_mult)
qed

lemma be16_zero: "256 * uint (a :: byte) + uint (b :: byte) = 0 \<longleftrightarrow> a = 0 \<and> b = 0"
proof
  assume h: "256 * uint a + uint b = 0"
  have "0 \<le> uint a" "0 \<le> uint b" by simp_all
  with h have "uint a = 0 \<and> uint b = 0" by arith
  then show "a = 0 \<and> b = 0" by (simp add: uint_0_iff)
next
  assume "a = 0 \<and> b = 0"
  then show "256 * uint a + uint b = 0" by simp
qed

lemma collect_cids_be: "collect_cids params = decode_be params"
  by (induction params rule: collect_cids.induct) (simp_all add: be16 be16_zero Let_def)

lemma on_report_notification:
  assumes "parse raw = Some (d, feat, func, sw, params)" "feat_idx l = Some feat" "func = 0"
  shows "on_report l raw =
     (if CID_GESTURE \<in> set (decode_be params) \<and> \<not> held l
        then call_back (on_down l) (l\<lparr>held := True\<rparr>)
      else if CID_GESTURE \<notin> set (decode_be params) \<and> held l
        then call_back (on_up l) (l\<lparr>held := False\<rparr>)
      else (None, l))"
  using assms by (simp add: on_report_def Let_def collect_cids_be)

lemma example_notification:
  "parse gesture_report = Some (0xFF, 0x05, 0x00, 0x00, [0x00, 0xC3, 0x00, 0x00])"
  by (simp add: gesture_report_def parse_def Let_def)

text \<open>
  Claim C4, as amended. The loop of \<open>_on_report\<close> decodes the parameter bytes as a list
  of big-endian 16-bit control identifiers terminated by a zero sentinel: of each pair
  of bytes the first is the high-order byte, and decoding stops at the first pair
  0x0000 (or when fewer than two bytes are left). For every report that parses to
  function 0 on the discovered control feature, the gesture control counts as held
  exactly when its identifier is in that list.
\<close>

theorem notification_cids_big_endian:
  "collect_cids params = decode_be params \<and>
   (parse raw = Some (d, feat, func, sw, params) \<and> feat_idx l = Some feat \<and> func = 0 \<longrightarrow>
    on_report l raw =
      (if CID_GESTURE \<in> set (decode_be params) \<and> \<not> held l
         then call_back (on_down l) (l\<lparr>held := True\<rparr>)
       else if CID_GESTURE \<notin> set (decode_be params) \<and> held l
         then call_back (on_up l) (l\<lparr>held := False\<rparr>)
       else (None, l)))"
  using collect_cids_be [of params] on_report_notification [of raw d feat func sw params l]
  by blast

text \<open>
  The theorem on the notification with the parameters 00 C3 00 00, for the connected
  listener, which has no callbacks: the identifier read is 0x00C3, and the control is
  now held.
\<close>

theorem notification_cids_big_endian_witness:
  "parse gesture_report = Some (0xFF, 0x05, 0x00, 0x00, [0x00, 0xC3, 0x00, 0x00]) \<and>
   feat_idx connected_listener = Some 0x05 \<and>
   collect_cids [0x00, 0xC3, 0x00, 0x00] = [0x00C3] \<and>
   on_report connected_listener gesture_report =
     (None, connected_listener\<lparr>held := True\<rparr>)"
proof -
  have f: "feat_idx connected_listener = Some 0x05" "\<not> held connected_listener"
    "on_down connected_listener = None"
    by (simp_all add: connected_listener_def HidGestureListener_init_def)
  have d: "decode_be [0x00, 0xC3, 0x00, 0x00] = [0x00C3]" by simp
  show ?thesis
    using notification_cids_big_endian
      [of "[0x00, 0xC3, 0x00, 0x00]" gesture_report "0xFF" "0x05" "0x00" "0x00"
          connected_listener]
      example_notification f d
    by (simp add: call_back_def)
qed

text \<open>
  Claim C4 as stated fails: the parameters 00 C3 00 00 are read as the identifier
  0x00C3, whereas as a little-endian list they hold 0xC300.
\<close>

theorem notification_cids_little_endian_counterexample:
  "collect_cids [0x00, 0xC3, 0x00, 0x00] = [0x00C3] \<and>
   decode_le [0x00, 0xC3, 0x00, 0x00] = [0xC300] \<and>
   collect_cids [0x00, 0xC3, 0x00, 0x00] \<noteq> decode_le [0x00, 0xC3, 0x00, 0x00]"
  by simp


section \<open>Edges of the gesture control\<close>

lemma dispatch_all:
  assumes "list_all raises_only_exceptions (callbacks_get h (event_type ev))"
  shows "dispatch h ev =
    (None,
     h\<lparr>reported :=
         reported h @ caught_messages (callbacks_get h (event_type ev)) ev (world h),
       dispatched := dispatched h @ [ev],
       world := call_all (callbacks_get h (event_type ev)) ev (world h)\<rparr>)"
  unfolding dispatch_def using run_callbacks_all [of "callbacks_get h (event_type ev)" ev] assms
  by (simp add: list_all_iff)

lemma callbacks_get_upd [simp]:
  "callbacks_get (h\<lparr>gesture_active := g\<rparr>) t = callbacks_get h t"
  "callbacks_get (h\<lparr>reported := r\<rparr>) t = callbacks_get h t"
  "callbacks_get (h\<lparr>dispatched := d\<rparr>) t = callbacks_get h t"
  "callbacks_get (h\<lparr>world := w\<rparr>) t = callbacks_get h t"
  by (simp_all add: callbacks_get_def)

lemma hid_down:
  assumes "\<not> gesture_active h" "list_all raises_only_exceptions (callbacks_get h GESTURE_DOWN)"
  shows "\<exists>h'. on_hid_gesture_down h = (None, h') \<and> gesture_active h' \<and>
     dispatched h' = dispatched h @ [MouseEvent GESTURE_DOWN None] \<and>
     callbacks_get h' = callbacks_get h"
  using assms
  by (simp add: on_hid_gesture_down_def dispatch_all MouseEvent_def fun_eq_iff)

lemma hid_up:
  assumes "gesture_active h" "list_all raises_only_exceptions (callbacks_get h GESTURE_UP)"
  shows "\<exists>h'. on_hid_gesture_up h = (None, h') \<and> \<not> gesture_active h' \<and>
     dispatched h' = dispatched h @ [MouseEvent GESTURE_UP None] \<and>
     callbacks_get h' = callbacks_get h"
  using assms
  by (simp add: on_hid_gesture_up_def dispatch_all MouseEvent_def fun_eq_iff)

lemma step_press:
  assumes "wired fi l" "\<not> held l" "\<not> gesture_active (outside l)" "notification fi raw True"
  shows "\<exists>l'. on_report l raw = (None, l') \<and> wired fi l' \<and> held l' \<and>
     gesture_active (outside l') \<and>
     dispatched (outside l') = dispatched (outside l) @ [MouseEvent GESTURE_DOWN None]"
proof -
  obtain d feat func sw params where p: "parse raw = Some (d, feat, func, sw, params)"
    and f: "feat = fi" "func = 0" and g: "CID_GESTURE \<in> set (decode_be params)"
    using assms(4) by (auto simp: notification_def split: option.splits)
  from assms(1) have w: "feat_idx l = Some fi" "on_down l = Some on_hid_gesture_down"
    "on_up l = Some on_hid_gesture_up"
    "list_all raises_only_exceptions (callbacks_get (outside l) GESTURE_DOWN)"
    "list_all raises_only_exceptions (callbacks_get (outside l) GESTURE_UP)"
    by (simp_all add: wired_def)
  obtain h' where h: "on_hid_gesture_down (outside l) = (None, h')" "gesture_active h'"
    "dispatched h' = dispatched (outside l) @ [MouseEvent GESTURE_DOWN None]"
    "callbacks_get h' = callbacks_get (outside l)"
    using hid_down [OF assms(3) w(4)] by blast
  have "on_report l raw = (None, l\<lparr>held := True, outside := h'\<rparr>)"
    using p f g w assms(2) h(1)
    by (simp add: on_report_notification [OF p] call_back_def)
  moreover have "wired fi (l\<lparr>held := True, outside := h'\<rparr>)"
    using w h(4) by (simp add: wired_def)
  ultimately show ?thesis using h by simp
qed

lemma step_hold:
  assumes "wired fi l" "held l" "notification fi raw True"
  shows "on_report l raw = (None, l)"
proof -
  obtain d feat func sw params where p: "parse raw = Some (d, feat, func, sw, params)"
    and f: "feat = fi" "func = 0" and g: "CID_GESTURE \<in> set (decode_be params)"
    using assms(3) by (auto simp: notification_def split: option.splits)
  from assms(1) have w: "feat_idx l = Some fi" by (simp add: wired_def)
  show ?thesis using p f g w assms(2) by (simp add: on_report_notification [OF p])
qed

lemma step_release:
  assumes "wired fi l" "held l" "gesture_active (outside l)" "notification fi raw False"
  shows "\<exists>l'. on_report l raw = (None, l') \<and> wired fi l' \<and> \<not> held l' \<and>
     \<not> gesture_active (outside l') \<and>
     dispatched (outside l') = dispatched (outside l) @ [MouseEvent GESTURE_UP None]"
proof -
  obtain d feat func sw params where p: "parse raw = Some (d, feat, func, sw, params)"
    and f: "feat = fi" "func = 0" and g: "CID_GESTURE \<notin> set (decode_be params)"
    using assms(4) by (auto simp: notification_def split: option.splits)
  from assms(1) have w: "feat_idx l = Some fi" "on_down l = Some on_hid_gesture_down"
    "on_up l = Some on_hid_gesture_up"
    "list_all raises_only_exceptions (callbacks_get (outside l) GESTURE_DOWN)"
    "list_all raises_only_exceptions (callbacks_get (outside l) GESTURE_UP)"
    by (simp_all add: wired_def)
  obtain h' where h: "on_hid_gesture_up (outside l) = (None, h')" "\<not> gesture_active h'"
    "dispatched h' = dispatched (outside l) @ [MouseEvent GESTURE_UP None]"
    "callbacks_get h' = callbacks_get (outside l)"
    using hid_up [OF assms(3) w(5)] by blast
  have "on_report l raw = (None, l\<lparr>held := False, outside := h'\<rparr>)"
    using p f g w assms(2) h(1)
    by (simp add: on_report_notification [OF p] call_back_def)
  moreover have "wired fi (l\<lparr>held := False, outside := h'\<rparr>)"
    using w h(4) by (simp add: wired_def)
  ultimately show ?thesis using h by simp
qed

lemma step_idle:
  assumes "wired fi l" "\<not> held l" "notification fi raw False"
  shows "on_report l raw = (None, l)"
proof -
  obtain d feat func sw params where p: "parse raw = Some (d, feat, func, sw, params)"
    and f: "feat = fi" "func = 0" and g: "CID_GESTURE \<notin> set (decode_be params)"
    using assms(3) by (auto simp: notification_def split: option.splits)
  from assms(1) have w: "feat_idx l = Some fi" by (simp add: wired_def)
  show ?thesis using p f g w assms(2) by (simp add: on_report_notification [OF p])
qed

lemma held_burst:
  assumes "wired fi l" "held l" "list_all (\<lambda>raw. notification fi raw True) raws"
  shows "on_reports l raws = (None, l)"
  using assms by (induction raws) (simp_all add: step_hold)

lemma idle_burst:
  assumes "wired fi l" "\<not> held l" "list_all (\<lambda>raw. notification fi raw False) raws"
  shows "on_reports l raws = (None, l)"
  using assms by (induction raws) (simp_all add: step_idle)

lemma on_reports_append:
  "on_reports l (xs @ ys) =
     (case on_reports l xs of (Some e, l') \<Rightarrow> (Some e, l') | (None, l') \<Rightarrow> on_reports l' ys)"
  by (induction xs arbitrary: l) (auto split: prod.splits option.splits)

text \<open>
  Claim C6. A listener wired to the hook starts from the released state (nothing held,
  the gesture not active). For every burst of one or later notification reports that
  each hold the gesture identifier, exactly one gesture-down event is dispatched; the
  first following notification without the identifier dispatches gesture-up, once; and
  further notifications without it dispatch nothing more.
\<close>

theorem gesture_edges_fire_once:
  assumes "wired fi l" "\<not> held l" "\<not> gesture_active (outside l)"
    "downs \<noteq> []" "\<forall>raw \<in> set downs. notification fi raw True"
    "notification fi up False" "\<forall>raw \<in> set later. notification fi raw False"
  shows "\<exists>l1 l2.
    on_reports l downs = (None, l1) \<and>
    dispatched (outside l1) = dispatched (outside l) @ [MouseEvent GESTURE_DOWN None] \<and>
    on_reports l (downs @ [up]) = (None, l2) \<and>
    dispatched (outside l2) =
      dispatched (outside l) @ [MouseEvent GESTURE_DOWN None, MouseEvent GESTURE_UP None] \<and>
    on_reports l (downs @ up # later) = (None, l2)"
proof -
  obtain r rs where d: "downs = r # rs" using assms(4) by (cases downs) auto
  have r: "notification fi r True" and rs: "list_all (\<lambda>raw. notification fi raw True) rs"
    using assms(5) d by (simp_all add: list_all_iff)
  obtain l1 where l1: "on_report l r = (None, l1)" "wired fi l1" "held l1"
    "gesture_active (outside l1)"
    "dispatched (outside l1) = dispatched (outside l) @ [MouseEvent GESTURE_DOWN None]"
    using step_press [OF assms(1) assms(2) assms(3) r] by blast
  have b: "on_reports l1 rs = (None, l1)"
    by (rule held_burst [OF l1(2) l1(3) rs])
  have downs: "on_reports l downs = (None, l1)"
    using d l1(1) b by simp
  obtain l2 where l2: "on_report l1 up = (None, l2)" "wired fi l2" "\<not> held l2"
    "dispatched (outside l2) = dispatched (outside l1) @ [MouseEvent GESTURE_UP None]"
    using step_release [OF l1(2) l1(3) l1(4) assms(6)] by blast
  have m: "on_reports l2 later = (None, l2)"
    using idle_burst [OF l2(2) l2(3)] assms(7) by (simp add: list_all_iff)
  have u: "on_reports l (downs @ [up]) = (None, l2)"
    using downs l2(1) by (simp add: on_reports_append)
  have a: "on_reports l (downs @ up # later) = (None, l2)"
    using downs l2(1) m by (simp add: on_reports_append)
  show ?thesis
    using downs l1(5) u l2(4) a by simp
qed

lemma example_reports:
  "notification 0x05 gesture_report True"
  "notification 0x05 release_report False"
  by (simp_all add: notification_def gesture_report_def release_report_def parse_def Let_def)

lemma example_wired:
  "wired 0x05 wired_listener"
  "\<not> held wired_listener"
  "\<not> gesture_active (outside wired_listener)"
  "dispatched (outside wired_listener) = []"
  by (simp_all add: wired_def wired_listener_def HidGestureListener_init_def register_def
      MouseHook_init_def callbacks_get_def example_handlers_raise_only_exceptions)

text \<open>
  The theorem on the wired listener: two reports with the identifier 0x00C3 and then
  two without it dispatch one gesture-down and one gesture-up.
\<close>

theorem gesture_edges_fire_once_witness:
  "wired 0x05 wired_listener \<and>
   \<not> held wired_listener \<and>
   \<not> gesture_active (outside wired_listener) \<and>
   notification 0x05 gesture_report True \<and>
   notification 0x05 release_report False \<and>
   fst (on_reports wired_listener
          [gesture_report, gesture_report, release_report, release_report]) = None \<and>
   dispatched (outside (snd (on_reports wired_listener
          [gesture_report, gesture_report, release_report, release_report]))) =
     [MouseEvent GESTURE_DOWN None, MouseEvent GESTURE_UP None]"
proof -
  have a: "[gesture_report, gesture_report, release_report, release_report] =
     [gesture_report, gesture_report] @ release_report # [release_report]"
    by simp
  have ne: "[gesture_report, gesture_report] \<noteq> []"
    by simp
  have ds: "\<forall>raw \<in> set [gesture_report, gesture_report]. notification 0x05 raw True"
    using example_reports(1) by simp
  have ms: "\<forall>raw \<in> set [release_report]. notification 0x05 raw False"
    using example_reports(2) by simp
  obtain l2 where
    "on_reports wired_listener
       ([gesture_report, gesture_report] @ release_report # [release_report]) = (None, l2)"
    "dispatched (outside l2) = [] @ [MouseEvent GESTURE_DOWN None, MouseEvent GESTURE_UP None]"
    using gesture_edges_fire_once
      [OF example_wired(1) example_wired(2) example_wired(3) ne ds example_reports(2) ms]
    unfolding example_wired(4) by blast
  then show ?thesis
    unfolding a using example_wired(1-3) example_reports by simp
qed


section \<open>The DPI request\<close>

lemma tx_buf_dpi:
  "tx_buf di fi 3 [0x00, hi, lo] =
     [LONG_ID, di, fi, 0x3A, 0, word_of_int (hi AND 0xFF), word_of_int (lo AND 0xFF),
      0, 0, 0, 0, 0, 0, 0, 0, 0, 0, 0, 0, 0]"
  by (simp add: tx_buf_def Let_def numeral_eq_Suc)

lemma and_ff: "(k::int) AND 0xFF = take_bit 8 k"
proof -
  have "(0xFF::int) = mask 8" by (simp add: mask_eq_exp_minus_1)
  then show ?thesis by (simp add: take_bit_eq_mask)
qed

lemma uint_byte_of_and_ff: "uint (word_of_int (k AND 0xFF) :: byte) = k mod 256"
  by (simp add: and_ff uint_word_of_int_eq take_bit_eq_mod)

lemma dpi_bytes:
  assumes "0 \<le> dpi" "dpi < 65536"
  shows "dpi_of_buf (tx_buf di fi 3 [0x00, (drop_bit 8 dpi) AND 0xFF, dpi AND 0xFF]) = dpi"
proof -
  have h: "dpi div 256 < 256" using assms by simp
  have h0: "0 \<le> dpi div 256" using assms by simp
  have a: "((drop_bit 8 dpi) AND 0xFF) mod 256 = dpi div 256"
    using h h0 by (simp add: and_ff take_bit_eq_mod drop_bit_eq_div)
  have b: "(dpi AND 0xFF) mod 256 = dpi mod 256"
    by (simp add: and_ff take_bit_eq_mod)
  define H :: byte where "H = word_of_int ((drop_bit 8 dpi) AND 0xFF AND 0xFF)"
  define L :: byte where "L = word_of_int (dpi AND 0xFF AND 0xFF)"
  have "dpi_of_buf (tx_buf di fi 3 [0x00, (drop_bit 8 dpi) AND 0xFF, dpi AND 0xFF]) =
        push_bit 8 (uint H) OR uint L"
    by (simp add: tx_buf_dpi dpi_of_buf_def H_def L_def)
  also have "\<dots> = 256 * uint H + uint L" by (rule be16)
  also have "\<dots> = 256 * (dpi div 256) + dpi mod 256"
  proof -
    have "uint H = dpi div 256"
      using h h0 by (simp add: H_def and_ff uint_word_of_int_eq take_bit_eq_mod drop_bit_eq_div)
    moreover have "uint L = dpi mod 256"
      by (simp add: L_def and_ff uint_word_of_int_eq take_bit_eq_mod)
    ultimately show ?thesis by simp
  qed
  finally have "dpi_of_buf (tx_buf di fi 3 [0x00, (drop_bit 8 dpi) AND 0xFF, dpi AND 0xFF]) =
        256 * (dpi div 256) + dpi mod 256" .
  then show ?thesis by simp
qed

lemma set_dpi_sends:
  assumes "dev l \<noteq> None" "dpi_idx l = Some di" "\<not> write_raises l"
  shows "\<exists>buf. written (fst (apply_queued (set_dpi_enqueue l v) reads)) = written l @ [buf] \<and>
     dpi_of_buf buf = max 200 (min 8200 v)"
proof -
  define dpi where "dpi = max 200 (min 8200 v)"
  have r: "0 \<le> dpi" "dpi < 65536" by (simp_all add: dpi_def)
  have "written (fst (apply_queued (set_dpi_enqueue l v) reads)) =
     written l @ [tx_buf (dev_idx l) di 3 [0x00, (drop_bit 8 dpi) AND 0xFF, dpi AND 0xFF]]"
    using assms
    by (auto simp add: apply_queued_def apply_pending_dpi_def set_dpi_enqueue_def request_def
        tx_def Let_def dpi_def split: prod.splits option.splits)
  then show ?thesis using dpi_bytes [OF r] by (simp add: dpi_def)
qed


text \<open>
  Claim C2, at the input 8100. \<open>set_dpi\<close> clamps to the interval from 200 to 8200,
  although its comment gives 8000 as the maximum of the device, so a connected listener
  sends every requested value up to 8200 unchanged (\<open>set_dpi_sends\<close>): for the request
  8100 the "set sensor DPI" command written to the device carries 8100, where the
  claimed clamp gives 8000.
\<close>

theorem set_dpi_8100_sends_8100:
  "map dpi_of_buf
     (written (fst (apply_queued (set_dpi_enqueue connected_listener 8100) []))) = [8100] \<and>
   max 200 (min 8000 8100) = (8000 :: int)"
  by (simp add: apply_queued_def apply_pending_dpi_def set_dpi_enqueue_def request_def tx_def
      tx_buf_dpi Let_def connected_listener_def HidGestureListener_init_def dpi_of_buf_def)


section \<open>The clean-up before reconnecting\<close>

lemma cleanup_fields:
  "feat_idx (main_loop_cleanup l) = None" "\<not> held (main_loop_cleanup l)"
  "dev (main_loop_cleanup l) = None" "dpi_idx (main_loop_cleanup l) = dpi_idx l"
  by (simp_all add: main_loop_cleanup_def undivert_def tx_def Let_def
      split: option.splits)


text \<open>
  Claim C5, at the connected listener with the gesture control held: it holds the
  control feature at index 5 and the DPI feature at index 7. The clean-up before the
  reconnection delay closes the device, clears the index of the control feature and the
  held state, and leaves the index of the DPI feature as it was (\<open>cleanup_fields\<close>): it
  is still 7.
\<close>

theorem cleanup_keeps_dpi_idx:
  "feat_idx (main_loop_cleanup (connected_listener\<lparr>held := True\<rparr>)) = None \<and>
   \<not> held (main_loop_cleanup (connected_listener\<lparr>held := True\<rparr>)) \<and>
   dev (main_loop_cleanup (connected_listener\<lparr>held := True\<rparr>)) = None \<and>
   dpi_idx (connected_listener\<lparr>held := True\<rparr>) = Some 0x07 \<and>
   dpi_idx (main_loop_cleanup (connected_listener\<lparr>held := True\<rparr>)) = Some 0x07"
  by (simp add: main_loop_cleanup_def undivert_def tx_def Let_def connected_listener_def
      HidGestureListener_init_def)


section \<open>Matching of responses to a request\<close>

lemma loop_passes_over:
  "passed_over l feat r \<Longrightarrow> request_loop l feat (r # reads) = request_loop l feat reads"
  by (auto simp: passed_over_def report_of_def answers_def is_error_def
      split: option.splits prod.splits)

lemma loop_answer:
  "report_of l r = Some m \<Longrightarrow> \<not> is_error m \<Longrightarrow> answers feat m \<Longrightarrow>
   request_loop l feat (r # reads) = (Some m, reads)"
  by (auto simp: report_of_def answers_def is_error_def split: option.splits prod.splits)

lemma loop_error:
  "report_of l r = Some m \<Longrightarrow> is_error m \<Longrightarrow>
   request_loop l feat (r # reads) = (None, reads)"
  by (auto simp: report_of_def is_error_def split: option.splits prod.splits)

lemma read_cases:
  "passed_over l feat r \<or>
   (\<exists>m. report_of l r = Some m \<and> is_error m) \<or>
   (\<exists>m. report_of l r = Some m \<and> \<not> is_error m \<and> answers feat m)"
  by (cases "report_of l r") (auto simp: passed_over_def)

lemma loop_Some:
  "request_loop l feat reads = (Some m, rest) \<Longrightarrow>
   \<exists>before r. reads = before @ r # rest \<and> list_all (passed_over l feat) before \<and>
     report_of l r = Some m \<and> \<not> is_error m \<and> answers feat m"
proof (induction reads)
  case Nil
  then show ?case by simp
next
  case (Cons r reads)
  consider (p) "passed_over l feat r"
    | (e) m' where "report_of l r = Some m'" "is_error m'"
    | (a) m' where "report_of l r = Some m'" "\<not> is_error m'" "answers feat m'"
    using read_cases [of l feat r] by blast
  then show ?case
  proof cases
    case p
    have "request_loop l feat reads = (Some m, rest)"
      using Cons.prems unfolding loop_passes_over [OF p] .
    then obtain before r' where "reads = before @ r' # rest"
      "list_all (passed_over l feat) before" "report_of l r' = Some m" "\<not> is_error m"
      "answers feat m"
      using Cons.IH by blast
    then have "r # reads = (r # before) @ r' # rest \<and> list_all (passed_over l feat) (r # before) \<and>
      report_of l r' = Some m \<and> \<not> is_error m \<and> answers feat m"
      using p by simp
    then show ?thesis by blast
  next
    case e
    show ?thesis using Cons.prems unfolding loop_error [OF e] by simp
  next
    case a
    have "m = m'" "rest = reads" using Cons.prems unfolding loop_answer [OF a] by simp_all
    then have "r # reads = [] @ r # rest \<and> list_all (passed_over l feat) [] \<and>
      report_of l r = Some m \<and> \<not> is_error m \<and> answers feat m"
      using a by simp
    then show ?thesis by blast
  qed
qed

lemma loop_None:
  "request_loop l feat reads = (None, rest) \<Longrightarrow>
   (rest = [] \<and> list_all (passed_over l feat) reads) \<or>
   (\<exists>before r m. reads = before @ r # rest \<and> list_all (passed_over l feat) before \<and>
     report_of l r = Some m \<and> is_error m)"
proof (induction reads)
  case Nil
  then show ?case by simp
next
  case (Cons r reads)
  consider (p) "passed_over l feat r"
    | (e) m' where "report_of l r = Some m'" "is_error m'"
    | (a) m' where "report_of l r = Some m'" "\<not> is_error m'" "answers feat m'"
    using read_cases [of l feat r] by blast
  then show ?case
  proof cases
    case p
    have "request_loop l feat reads = (None, rest)"
      using Cons.prems unfolding loop_passes_over [OF p] .
    then consider (t) "rest = []" "list_all (passed_over l feat) reads"
      | (x) before r' m' where "reads = before @ r' # rest"
        "list_all (passed_over l feat) before" "report_of l r' = Some m'" "is_error m'"
      using Cons.IH by blast
    then show ?thesis
    proof cases
      case t
      then show ?thesis using p by simp
    next
      case x
      then have "r # reads = (r # before) @ r' # rest \<and>
        list_all (passed_over l feat) (r # before) \<and> report_of l r' = Some m' \<and> is_error m'"
        using p by simp
      then show ?thesis by blast
    qed
  next
    case e
    have "rest = reads" using Cons.prems unfolding loop_error [OF e] by simp
    then have "r # reads = [] @ r # rest \<and> list_all (passed_over l feat) [] \<and>
      report_of l r = Some m' \<and> is_error m'"
      using e by simp
    then show ?thesis by blast
  next
    case a
    show ?thesis using Cons.prems unfolding loop_answer [OF a] by simp
  qed
qed

lemma example_reads:
  "passed_over connected_listener 0x05 (Data [])"
  "passed_over connected_listener 0x05 Read_Raises"
  "passed_over connected_listener 0x05 (Data other_tag_report)"
  "passed_over connected_listener 0x05 (Data other_feature_report)"
  "report_of connected_listener (Data matching_response) =
     Some (0xFF, 0x05, 0x03, 0x0A, [0x00, 0x1F, 0xA4])"
  "\<not> is_error (0xFF, 0x05, 0x03, 0x0A, [0x00, 0x1F, 0xA4])"
  "answers 0x05 (0xFF, 0x05, 0x03, 0x0A, [0x00, 0x1F, 0xA4])"
  "report_of connected_listener (Data error_report) =
     Some (0xFF, 0xFF, 0x00, 0x05, [0x3A, 0x02, 0x00])"
  "is_error (0xFF, 0xFF, 0x00, 0x05, [0x3A, 0x02, 0x00])"
  by (simp_all add: passed_over_def report_of_def rx_def parse_def Let_def is_error_def
      answers_def connected_listener_def HidGestureListener_init_def
      matching_response_def other_tag_report_def other_feature_report_def error_report_def)

text \<open>
  Claim C3, as amended. While the loop of \<open>_request\<close> waits, a read that delivers no
  message, or a message that is not an error message and whose feature index or
  software tag differs from the request's, never resolves the request: the loop goes on
  to the next read. The request resolves only on a message that matches both feature
  index and tag, which is returned; on an error message (feature index 0xFF), on which
  it fails at once; or when the deadline passes, all reads having been passed over.
\<close>

theorem request_resolution:
  "(passed_over l feat r \<longrightarrow>
      request_loop l feat (r # reads) = request_loop l feat reads) \<and>
   (report_of l r = Some m \<and> \<not> is_error m \<and> answers feat m \<longrightarrow>
      request_loop l feat (r # reads) = (Some m, reads)) \<and>
   (report_of l r = Some m \<and> is_error m \<longrightarrow>
      request_loop l feat (r # reads) = (None, reads)) \<and>
   (request_loop l feat reads = (Some m, rest) \<longrightarrow>
      (\<exists>before r'. reads = before @ r' # rest \<and> list_all (passed_over l feat) before \<and>
         report_of l r' = Some m \<and> \<not> is_error m \<and> answers feat m)) \<and>
   (request_loop l feat reads = (None, rest) \<longrightarrow>
      (rest = [] \<and> list_all (passed_over l feat) reads) \<or>
      (\<exists>before r' m'. reads = before @ r' # rest \<and> list_all (passed_over l feat) before \<and>
         report_of l r' = Some m' \<and> is_error m'))"
  using loop_passes_over [of l feat r reads] loop_answer [of l r m feat reads]
    loop_error [of l r m feat reads] loop_Some [of l feat reads m rest]
    loop_None [of l feat reads rest]
  by blast

text \<open>
  The theorem on a request of the connected listener on feature index 5: a report with
  another tag is passed over and the matching response that follows resolves the
  request, the report after it being left unread; an error report fails the request at
  once.
\<close>

theorem request_resolution_witness:
  "passed_over connected_listener 0x05 (Data other_tag_report) \<and>
   report_of connected_listener (Data matching_response) =
     Some (0xFF, 0x05, 0x03, 0x0A, [0x00, 0x1F, 0xA4]) \<and>
   \<not> is_error (0xFF, 0x05, 0x03, 0x0A, [0x00, 0x1F, 0xA4]) \<and>
   answers 0x05 (0xFF, 0x05, 0x03, 0x0A, [0x00, 0x1F, 0xA4]) \<and>
   request_loop connected_listener 0x05
     [Data other_tag_report, Data matching_response, Data other_feature_report] =
     (Some (0xFF, 0x05, 0x03, 0x0A, [0x00, 0x1F, 0xA4]), [Data other_feature_report]) \<and>
   report_of connected_listener (Data error_report) =
     Some (0xFF, 0xFF, 0x00, 0x05, [0x3A, 0x02, 0x00]) \<and>
   is_error (0xFF, 0xFF, 0x00, 0x05, [0x3A, 0x02, 0x00]) \<and>
   request_loop connected_listener 0x05 [Data error_report, Data matching_response] =
     (None, [Data matching_response]) \<and>
   (\<exists>before r'.
      [Data other_tag_report, Data matching_response, Data other_feature_report] =
        before @ r' # [Data other_feature_report] \<and>
      list_all (passed_over connected_listener 0x05) before \<and>
      report_of connected_listener r' = Some (0xFF, 0x05, 0x03, 0x0A, [0x00, 0x1F, 0xA4]))"
proof -
  have a: "request_loop connected_listener 0x05
      [Data matching_response, Data other_feature_report] =
      (Some (0xFF, 0x05, 0x03, 0x0A, [0x00, 0x1F, 0xA4]), [Data other_feature_report])"
    using request_resolution
      [of connected_listener "0x05" "Data matching_response" "[Data other_feature_report]"
          "(0xFF, 0x05, 0x03, 0x0A, [0x00, 0x1F, 0xA4])"]
      example_reads
    by blast
  have b: "request_loop connected_listener 0x05
      [Data other_tag_report, Data matching_response, Data other_feature_report] =
      (Some (0xFF, 0x05, 0x03, 0x0A, [0x00, 0x1F, 0xA4]), [Data other_feature_report])"
    using request_resolution
      [of connected_listener "0x05" "Data other_tag_report"
          "[Data matching_response, Data other_feature_report]"]
      example_reads(3) a
    by simp
  have c: "request_loop connected_listener 0x05 [Data error_report, Data matching_response] =
      (None, [Data matching_response])"
    using request_resolution
      [of connected_listener "0x05" "Data error_report" "[Data matching_response]"
          "(0xFF, 0xFF, 0x00, 0x05, [0x3A, 0x02, 0x00])"]
      example_reads
    by blast
  have d: "\<exists>before r'.
      [Data other_tag_report, Data matching_response, Data other_feature_report] =
        before @ r' # [Data other_feature_report] \<and>
      list_all (passed_over connected_listener 0x05) before \<and>
      report_of connected_listener r' = Some (0xFF, 0x05, 0x03, 0x0A, [0x00, 0x1F, 0xA4])"
    using request_resolution
      [of connected_listener "0x05" _
          "[Data other_tag_report, Data matching_response, Data other_feature_report]"
          "(0xFF, 0x05, 0x03, 0x0A, [0x00, 0x1F, 0xA4])" "[Data other_feature_report]"] b
    by blast
  show ?thesis using example_reads b c d by blast
qed

text \<open>
  Claim C3 as stated fails: for a request on feature index 5, an error report, whose
  feature index 0xFF differs from 5, resolves the request, which fails although the
  matching response is the next report to be read.
\<close>

theorem request_error_report_counterexample:
  "request_loop connected_listener 0x05 [Data error_report, Data matching_response] =
     (None, [Data matching_response]) \<and>
   request_loop connected_listener 0x05 [Data matching_response] =
     (Some (0xFF, 0x05, 0x03, 0x0A, [0x00, 0x1F, 0xA4]), []) \<and>
   request_loop connected_listener 0x05 [Data error_report, Data matching_response] \<noteq>
     request_loop connected_listener 0x05 [Data matching_response]"
  by (simp add: rx_def parse_def Let_def connected_listener_def HidGestureListener_init_def
      matching_response_def error_report_def)


section \<open>Rewiring of the bindings\<close>

lemma blocked_bind_events:
  "blocked_events (bind_events h a evs) =
     blocked_events h \<union> (if a \<noteq> ''none'' then set evs else {})"
  by (induction h a evs rule: bind_events.induct) (auto simp: block_def register_def)

lemma callbacks_get_block [simp]: "callbacks_get (block h t) t' = callbacks_get h t'"
  by (simp add: callbacks_get_def block_def)

lemma callbacks_get_register:
  "callbacks_get (register h t cb) t' =
     (if t' = t then callbacks_get h t @ [cb] else callbacks_get h t')"
  by (simp add: callbacks_get_def register_def)

lemma callbacks_bind_events:
  "callbacks_get (bind_events h a evs) t =
     callbacks_get h t @
     (if a \<noteq> ''none''
      then map (\<lambda>e. handler_for e a) (filter (\<lambda>e. e = t \<and> \<not> endswith e ''_up'') evs)
      else [])"
  by (induction h a evs rule: bind_events.induct)
    (auto simp: callbacks_get_register handler_for_def)

lemma blocked_bind_buttons:
  "blocked_events (bind_buttons h fb items) =
     blocked_events h \<union>
     {t. \<exists>(k, a) \<in> set items. a \<noteq> ''none'' \<and> t \<in> set (events_for fb k)}"
  by (induction h fb items rule: bind_buttons.induct) (auto simp: blocked_bind_events)

lemma callbacks_bind_buttons:
  "callbacks_get (bind_buttons h fb items) t =
     callbacks_get h t @
     concat (map (\<lambda>(k, a). if a \<noteq> ''none''
        then map (\<lambda>e. handler_for e a)
               (filter (\<lambda>e. e = t \<and> \<not> endswith e ''_up'') (events_for fb k))
        else []) items)"
  by (induction h fb items rule: bind_buttons.induct) (simp_all add: callbacks_bind_events)

lemma rewired_eq:
  "rewired e =
     bind_buttons
       ((reset_bindings (hook e))
          \<lparr>invert_vscroll :=
             (case cfg_invert_vscroll (case settings (cfg e) of
                  None \<Rightarrow> \<lparr>cfg_invert_hscroll = None, cfg_invert_vscroll = None\<rparr>
                | Some s \<Rightarrow> s) of None \<Rightarrow> False | Some b \<Rightarrow> b),
           invert_hscroll :=
             (case cfg_invert_hscroll (case settings (cfg e) of
                  None \<Rightarrow> \<lparr>cfg_invert_hscroll = None, cfg_invert_vscroll = None\<rparr>
                | Some s \<Rightarrow> s) of None \<Rightarrow> False | Some b \<Rightarrow> b)\<rparr>)
       (middle_fallback (get_active_mappings (cfg e)))
       (get_active_mappings (cfg e))"
  by (simp add: rewired_def setup_hooks_def Let_def middle_fallback_def)

lemma blocked_rewired:
  "blocked_events (rewired e) =
     {t. \<exists>(k, a) \<in> set (get_active_mappings (cfg e)).
           a \<noteq> ''none'' \<and> t \<in> set (events_for (middle_fallback (get_active_mappings (cfg e))) k)}"
  unfolding rewired_eq blocked_bind_buttons by (simp add: reset_bindings_def)

lemma callbacks_rewired:
  "callbacks_get (rewired e) t =
     concat (map (\<lambda>(k, a). if a \<noteq> ''none''
        then map (\<lambda>e. handler_for e a)
               (filter (\<lambda>e. e = t \<and> \<not> endswith e ''_up'')
                  (events_for (middle_fallback (get_active_mappings (cfg e))) k))
        else []) (get_active_mappings (cfg e)))"
  unfolding rewired_eq callbacks_bind_buttons
  by (simp add: reset_bindings_def callbacks_get_def)


lemma event_names:
  "\<not> endswith ''middle_down'' ''_up''" "endswith ''middle_up'' ''_up''"
  "\<not> contains ''middle_down'' ''hscroll''"
  by (simp_all add: endswith_def)

lemma own_events: "set (dict_get BUTTON_TO_EVENTS k []) \<subseteq> set (events_for fb k)"
  by (auto simp: events_for_def)

lemma middle_events:
  "events_for True ''gesture'' = [''gesture_down'', ''gesture_up'', ''middle_down'', ''middle_up'']"
  by (simp add: events_for_def dict_get_def BUTTON_TO_EVENTS_def)

lemma middle_down_filter:
  "filter (\<lambda>e. e = ''middle_down'' \<and> \<not> endswith e ''_up'') (events_for True k) =
     (if k = ''gesture'' \<or> k = ''middle'' then [''middle_down''] else [])"
  by (simp add: events_for_def dict_get_def BUTTON_TO_EVENTS_def event_names)

lemma up_filter:
  "endswith t ''_up'' \<Longrightarrow> filter (\<lambda>e. e = t \<and> \<not> endswith e ''_up'') evs = []"
  by (induction evs) auto


lemma dict_get_Cons:
  "dict_get ((k, a) # m) k' d = (if k' = k then a else dict_get m k' d)"
  by (simp add: dict_get_def)

lemma dict_get_absent: "k \<notin> fst ` set m \<Longrightarrow> dict_get m k d = d"
  by (simp add: dict_get_def map_of_eq_None_iff [THEN iffD2])

lemma fallback_handlers:
  assumes "distinct (map fst m)" "dict_get m ''middle'' ''none'' = ''none''"
  shows "concat (map (\<lambda>(k, a). if a \<noteq> ''none''
        then map (\<lambda>e. handler_for e a)
               (filter (\<lambda>e. e = ''middle_down'' \<and> \<not> endswith e ''_up'') (events_for True k))
        else []) m) =
     (if dict_get m ''gesture'' ''none'' \<noteq> ''none''
      then [make_handler (dict_get m ''gesture'' ''none'')] else [])"
  using assms
proof (induction m)
  case Nil
  then show ?case by (simp add: dict_get_def)
next
  case (Cons ka m)
  obtain k a where ka: "ka = (k, a)" by (cases ka)
  have d: "distinct (map fst m)" and nk: "k \<notin> fst ` set m"
    using Cons.prems(1) ka by simp_all
  have h: "handler_for ''middle_down'' x = make_handler x" for x
    by (simp add: handler_for_def event_names)
  show ?case
  proof (cases "k = ''middle''")
    case True
    then have an: "a = ''none''" using Cons.prems(2) ka by (simp add: dict_get_Cons)
    have mm: "dict_get m ''middle'' ''none'' = ''none''"
      using nk True by (simp add: dict_get_absent)
    show ?thesis
      using Cons.IH [OF d mm] ka True an by (simp add: dict_get_Cons)
  next
    case False
    then have mm: "dict_get m ''middle'' ''none'' = ''none''"
      using Cons.prems(2) ka by (simp add: dict_get_Cons)
    show ?thesis
    proof (cases "k = ''gesture''")
      case True
      then have g: "dict_get m ''gesture'' ''none'' = ''none''"
        using nk by (simp add: dict_get_absent)
      show ?thesis
        using Cons.IH [OF d mm] ka True g
        by (simp add: dict_get_Cons middle_down_filter h)
    next
      case g: False
      show ?thesis
        using Cons.IH [OF d mm] ka False g
        by (simp add: dict_get_Cons middle_down_filter)
    qed
  qed
qed

lemma rewired_blocked_only:
  assumes "t \<in> blocked_events (rewired e)"
  shows "\<exists>(k, a) \<in> set (get_active_mappings (cfg e)). a \<noteq> ''none'' \<and>
           t \<in> set (events_for (middle_fallback (get_active_mappings (cfg e))) k)"
  using assms unfolding blocked_rewired by simp

lemma rewired_callbacks_only:
  assumes "cb \<in> set (callbacks_get (rewired e) t)"
  shows "\<exists>(k, a) \<in> set (get_active_mappings (cfg e)). a \<noteq> ''none'' \<and>
           t \<in> set (events_for (middle_fallback (get_active_mappings (cfg e))) k) \<and>
           \<not> endswith t ''_up'' \<and> cb = handler_for t a"
proof -
  let ?m = "get_active_mappings (cfg e)"
  obtain x where x: "x \<in> set ?m"
    and c: "cb \<in> set (case x of (k, a) \<Rightarrow> if a \<noteq> ''none''
        then map (\<lambda>e. handler_for e a)
               (filter (\<lambda>e. e = t \<and> \<not> endswith e ''_up'')
                  (events_for (middle_fallback ?m) k))
        else [])"
    using assms unfolding callbacks_rewired set_concat set_map by blast
  obtain k a where ka: "x = (k, a)" by (cases x)
  have a: "a \<noteq> ''none''" using c ka by (cases "a = ''none''") simp_all
  have "cb \<in> (\<lambda>e. handler_for e a) `
      {e \<in> set (events_for (middle_fallback ?m) k). e = t \<and> \<not> endswith e ''_up''}"
    using c ka a by simp
  then have "a \<noteq> ''none'' \<and> t \<in> set (events_for (middle_fallback ?m) k) \<and>
      \<not> endswith t ''_up'' \<and> cb = handler_for t a"
    using a by blast
  then show ?thesis using x ka by (intro bexI [of _ "(k, a)"]) simp_all
qed

lemma rewired_blocks:
  assumes "(k, a) \<in> set (get_active_mappings (cfg e))" "a \<noteq> ''none''"
    "t \<in> set (dict_get BUTTON_TO_EVENTS k [])"
  shows "t \<in> blocked_events (rewired e)"
proof -
  have "t \<in> set (events_for (middle_fallback (get_active_mappings (cfg e))) k)"
    using assms(3) own_events by blast
  then show ?thesis unfolding blocked_rewired using assms(1,2) by blast
qed

lemma rewired_registers:
  assumes "(k, a) \<in> set (get_active_mappings (cfg e))" "a \<noteq> ''none''"
    "t \<in> set (dict_get BUTTON_TO_EVENTS k [])" "\<not> endswith t ''_up''"
  shows "handler_for t a \<in> set (callbacks_get (rewired e) t)"
proof -
  let ?m = "get_active_mappings (cfg e)"
  let ?F = "\<lambda>(k, a). if a \<noteq> ''none''
        then map (\<lambda>e. handler_for e a)
               (filter (\<lambda>e. e = t \<and> \<not> endswith e ''_up'')
                  (events_for (middle_fallback ?m) k))
        else []"
  have "t \<in> set (events_for (middle_fallback ?m) k)"
    using assms(3) own_events by blast
  then have "handler_for t a \<in> set (?F (k, a))"
    using assms(2,4) by simp
  then have "handler_for t a \<in> set (concat (map ?F ?m))"
    unfolding set_concat set_map using assms(1) by blast
  then show ?thesis unfolding callbacks_rewired .
qed

lemma rewired_up_unbound:
  assumes "endswith t ''_up''"
  shows "callbacks_get (rewired e) t = []"
proof -
  have "(case x of (k, a) \<Rightarrow> if a \<noteq> ''none''
        then map (\<lambda>e. handler_for e a)
               (filter (\<lambda>e. e = t \<and> \<not> endswith e ''_up'') (events_for fb k))
        else []) = []" for x :: "string \<times> string" and fb
    by (cases x) (simp add: up_filter [OF assms])
  then show ?thesis unfolding callbacks_rewired by (simp add: split_def)
qed

lemma rewired_fallback:
  assumes "distinct (map fst (get_active_mappings (cfg e)))"
    "middle_fallback (get_active_mappings (cfg e))"
  shows "MIDDLE_DOWN \<in> blocked_events (rewired e) \<and> MIDDLE_UP \<in> blocked_events (rewired e) \<and>
    callbacks_get (rewired e) MIDDLE_DOWN =
      [make_handler (dict_get (get_active_mappings (cfg e)) ''gesture'' ''none'')]"
proof -
  let ?m = "get_active_mappings (cfg e)"
  have g: "dict_get ?m ''gesture'' ''none'' \<noteq> ''none''"
    and mi: "dict_get ?m ''middle'' ''none'' = ''none''"
    using assms(2) by (simp_all add: middle_fallback_def)
  have "map_of ?m ''gesture'' = Some (dict_get ?m ''gesture'' ''none'')"
    using g by (cases "map_of ?m ''gesture''") (simp_all add: dict_get_def)
  then have i: "(''gesture'', dict_get ?m ''gesture'' ''none'') \<in> set ?m"
    by (rule map_of_SomeD)
  have t: "middle_fallback ?m = True" using assms(2) by simp
  have b1: "\<exists>(k, a) \<in> set ?m. a \<noteq> ''none'' \<and> MIDDLE_DOWN \<in> set (events_for True k)"
    by (rule bexI [OF _ i]) (simp add: g middle_events)
  have b2: "\<exists>(k, a) \<in> set ?m. a \<noteq> ''none'' \<and> MIDDLE_UP \<in> set (events_for True k)"
    by (rule bexI [OF _ i]) (simp add: g middle_events)
  have b: "MIDDLE_DOWN \<in> blocked_events (rewired e)" "MIDDLE_UP \<in> blocked_events (rewired e)"
    unfolding blocked_rewired t using b1 b2 by (simp_all only: mem_Collect_eq)
  have c: "callbacks_get (rewired e) MIDDLE_DOWN =
      [make_handler (dict_get ?m ''gesture'' ''none'')]"
    unfolding callbacks_rewired t
    by (simp only: fallback_handlers [OF assms(1) mi]) (simp only: g not_False_eq_True if_True)
  show ?thesis using b c by (intro conjI)
qed

text \<open>
  Claim C7. \<open>_switch_profile\<close> and \<open>reload_mappings\<close> rewire the hook by clearing all
  bindings and blocked events and setting them up from the active mappings \<open>m\<close>.
  Afterwards nothing is blocked and no handler is bound but what the mappings ask for;
  for every button whose action is not \<open>"none"\<close>, each of its event types (down and up)
  is blocked, and the handler for its action is bound on each event type that is not
  an up edge; no handler is bound on any up edge; and when the gesture control has an
  action and the middle button's action is \<open>"none"\<close>, \<open>middle_down\<close> and \<open>middle_up\<close>
  are blocked and \<open>middle_down\<close> is bound to the gesture action, and to nothing else.
\<close>

theorem rewiring_binds_mapped_buttons:
  assumes "m = get_active_mappings (cfg e)"
  shows
  "hook (switch_profile e p) =
     rewired (e\<lparr>cfg := (cfg e)\<lparr>active_profile := Some p\<rparr>, current_profile := p\<rparr>) \<and>
   hook (reload_mappings e loaded) =
     rewired (e\<lparr>cfg := loaded,
                current_profile :=
                  (case active_profile loaded of None \<Rightarrow> ''default'' | Some n \<Rightarrow> n)\<rparr>) \<and>
   (\<forall>t. t \<in> blocked_events (rewired e) \<longrightarrow>
      (\<exists>(k, a) \<in> set m. a \<noteq> ''none'' \<and> t \<in> set (events_for (middle_fallback m) k))) \<and>
   (\<forall>t cb. cb \<in> set (callbacks_get (rewired e) t) \<longrightarrow>
      (\<exists>(k, a) \<in> set m. a \<noteq> ''none'' \<and> t \<in> set (events_for (middle_fallback m) k) \<and>
         \<not> endswith t ''_up'' \<and> cb = handler_for t a)) \<and>
   (\<forall>k a t. (k, a) \<in> set m \<and> a \<noteq> ''none'' \<and> t \<in> set (dict_get BUTTON_TO_EVENTS k []) \<longrightarrow>
      t \<in> blocked_events (rewired e) \<and>
      (\<not> endswith t ''_up'' \<longrightarrow> handler_for t a \<in> set (callbacks_get (rewired e) t))) \<and>
   (\<forall>t. endswith t ''_up'' \<longrightarrow> callbacks_get (rewired e) t = []) \<and>
   (distinct (map fst m) \<and> middle_fallback m \<longrightarrow>
      MIDDLE_DOWN \<in> blocked_events (rewired e) \<and> MIDDLE_UP \<in> blocked_events (rewired e) \<and>
      callbacks_get (rewired e) MIDDLE_DOWN = [make_handler (dict_get m ''gesture'' ''none'')])"
proof (intro conjI allI impI)
  show "hook (switch_profile e p) =
     rewired (e\<lparr>cfg := (cfg e)\<lparr>active_profile := Some p\<rparr>, current_profile := p\<rparr>)"
    by (simp add: switch_profile_def rewired_def Let_def)
  show "hook (reload_mappings e loaded) =
     rewired (e\<lparr>cfg := loaded,
                current_profile :=
                  (case active_profile loaded of None \<Rightarrow> ''default'' | Some n \<Rightarrow> n)\<rparr>)"
    by (simp add: reload_mappings_def rewired_def Let_def)
next
  fix t assume "t \<in> blocked_events (rewired e)"
  then show "\<exists>(k, a) \<in> set m. a \<noteq> ''none'' \<and> t \<in> set (events_for (middle_fallback m) k)"
    unfolding assms by (rule rewired_blocked_only)
next
  fix t cb assume "cb \<in> set (callbacks_get (rewired e) t)"
  then show "\<exists>(k, a) \<in> set m. a \<noteq> ''none'' \<and> t \<in> set (events_for (middle_fallback m) k) \<and>
         \<not> endswith t ''_up'' \<and> cb = handler_for t a"
    unfolding assms by (rule rewired_callbacks_only)
next
  fix k a t
  assume "(k, a) \<in> set m \<and> a \<noteq> ''none'' \<and> t \<in> set (dict_get BUTTON_TO_EVENTS k [])"
  then show "t \<in> blocked_events (rewired e)"
    unfolding assms using rewired_blocks [of k a e t] by simp
next
  fix k a t
  assume "(k, a) \<in> set m \<and> a \<noteq> ''none'' \<and> t \<in> set (dict_get BUTTON_TO_EVENTS k [])"
    and "\<not> endswith t ''_up''"
  then show "handler_for t a \<in> set (callbacks_get (rewired e) t)"
    unfolding assms using rewired_registers [of k a e t] by simp
next
  fix t assume "endswith t ''_up''"
  then show "callbacks_get (rewired e) t = []" by (rule rewired_up_unbound)
next
  assume "distinct (map fst m) \<and> middle_fallback m"
  then have f: "MIDDLE_DOWN \<in> blocked_events (rewired e) \<and> MIDDLE_UP \<in> blocked_events (rewired e) \<and>
      callbacks_get (rewired e) MIDDLE_DOWN = [make_handler (dict_get m ''gesture'' ''none'')]"
    unfolding assms using rewired_fallback [of e] by simp
  from f show "MIDDLE_DOWN \<in> blocked_events (rewired e)" by simp
  from f show "MIDDLE_UP \<in> blocked_events (rewired e)" by simp
  from f show "callbacks_get (rewired e) MIDDLE_DOWN = [make_handler (dict_get m ''gesture'' ''none'')]"
    by simp
qed


lemma example_mappings_facts:
  "example_mappings = get_active_mappings (cfg (example_engine example_mappings))"
  "distinct (map fst example_mappings)"
  "middle_fallback example_mappings"
  "(''xbutton1'', ''alt_tab'') \<in> set example_mappings"
  "dict_get example_mappings ''gesture'' ''none'' = ''task_view''"
  by (simp_all add: example_mappings_def example_engine_def example_config_def
      browser_profile_def get_active_mappings_def dict_get_def middle_fallback_def Let_def)

lemma example_event_names:
  "XBUTTON1_DOWN \<in> set (dict_get BUTTON_TO_EVENTS ''xbutton1'' [])"
  "XBUTTON1_UP \<in> set (dict_get BUTTON_TO_EVENTS ''xbutton1'' [])"
  "\<not> endswith XBUTTON1_DOWN ''_up''"
  "endswith XBUTTON1_UP ''_up''"
  "handler_for XBUTTON1_DOWN ''alt_tab'' = make_handler ''alt_tab''"
  by (simp_all add: dict_get_def BUTTON_TO_EVENTS_def endswith_def handler_for_def)

text \<open>
  The theorem on the example engine with the example mappings, which leave the middle
  button to pass through, give the gesture control the action \<open>task_view\<close> and the back
  button \<open>alt_tab\<close>: both edges of the back button are blocked and its action is bound
  on the down edge only; the middle button is blocked and bound to \<open>task_view\<close>.
\<close>

theorem rewiring_binds_mapped_buttons_witness:
  "example_mappings = get_active_mappings (cfg (example_engine example_mappings)) \<and>
   distinct (map fst example_mappings) \<and>
   middle_fallback example_mappings \<and>
   (''xbutton1'', ''alt_tab'') \<in> set example_mappings \<and>
   XBUTTON1_DOWN \<in> set (dict_get BUTTON_TO_EVENTS ''xbutton1'' []) \<and>
   XBUTTON1_UP \<in> set (dict_get BUTTON_TO_EVENTS ''xbutton1'' []) \<and>
   endswith XBUTTON1_UP ''_up'' \<and>
   XBUTTON1_DOWN \<in> blocked_events (rewired (example_engine example_mappings)) \<and>
   XBUTTON1_UP \<in> blocked_events (rewired (example_engine example_mappings)) \<and>
   make_handler ''alt_tab'' \<in>
     set (callbacks_get (rewired (example_engine example_mappings)) XBUTTON1_DOWN) \<and>
   callbacks_get (rewired (example_engine example_mappings)) XBUTTON1_UP = [] \<and>
   MIDDLE_DOWN \<in> blocked_events (rewired (example_engine example_mappings)) \<and>
   MIDDLE_UP \<in> blocked_events (rewired (example_engine example_mappings)) \<and>
   callbacks_get (rewired (example_engine example_mappings)) MIDDLE_DOWN =
     [make_handler ''task_view'']"
proof -
  note T = rewiring_binds_mapped_buttons [OF example_mappings_facts(1)]
  note T5 = T [THEN conjunct2, THEN conjunct2, THEN conjunct2, THEN conjunct2, THEN conjunct1]
  note T6 = T [THEN conjunct2, THEN conjunct2, THEN conjunct2, THEN conjunct2, THEN conjunct2,
               THEN conjunct1]
  note T7 = T [THEN conjunct2, THEN conjunct2, THEN conjunct2, THEN conjunct2, THEN conjunct2,
               THEN conjunct2]
  have d: "XBUTTON1_DOWN \<in> blocked_events (rewired (example_engine example_mappings)) \<and>
      (\<not> endswith XBUTTON1_DOWN ''_up'' \<longrightarrow>
       handler_for XBUTTON1_DOWN ''alt_tab'' \<in>
         set (callbacks_get (rewired (example_engine example_mappings)) XBUTTON1_DOWN))"
    using T5 [THEN spec, THEN spec, THEN spec, of "''xbutton1''" "''alt_tab''" XBUTTON1_DOWN]
      example_mappings_facts(4) example_event_names(1)
    by simp
  have u: "XBUTTON1_UP \<in> blocked_events (rewired (example_engine example_mappings))"
    using T5 [THEN spec, THEN spec, THEN spec, of "''xbutton1''" "''alt_tab''" XBUTTON1_UP]
      example_mappings_facts(4) example_event_names(2)
    by simp
  have n: "callbacks_get (rewired (example_engine example_mappings)) XBUTTON1_UP = []"
    using T6 [THEN spec, of XBUTTON1_UP] example_event_names(4) by simp
  have f: "MIDDLE_DOWN \<in> blocked_events (rewired (example_engine example_mappings)) \<and>
      MIDDLE_UP \<in> blocked_events (rewired (example_engine example_mappings)) \<and>
      callbacks_get (rewired (example_engine example_mappings)) MIDDLE_DOWN =
        [make_handler ''task_view'']"
    using T7 example_mappings_facts(2,3,5) by simp
  show ?thesis
    using d u n f example_mappings_facts(1-4) example_event_names by simp
qed

end
